theory Spec2Isabelle
  imports Main "HOL-Library.Word"
begin

section \<open>Data model\<close>

text \<open>
  The chat backend keeps its durable state in four relational tables
  (\<^verbatim>\<open>src/db/schema.ts\<close>) and its live state in the Socket.IO server created by
  \<^verbatim>\<open>initializeSocketServer\<close> (\<^verbatim>\<open>src/lib/socket.ts\<close>). Identifiers are the
  uuids of the rows in the text form in which the database returns them; the handlers pass
  them around as strings, a request names a row by this form of its id, and the look-ups
  compare the strings for equality. A time is the
  millisecond count of a JavaScript \<^verbatim>\<open>Date\<close>. Message content is a JavaScript string,
  a sequence of UTF-16 code units.
\<close>

type_synonym ident = string
type_synonym time = nat
type_synonym js_string = "16 word list"

text \<open>\<^verbatim>\<open>messageStatusEnum\<close>: the enum \<^verbatim>\<open>['sent', 'delivered', 'read']\<close>.\<close>

datatype message_status = Sent | Delivered | Read

text \<open>The position of a label in the enum declaration, which is the order of the enum.\<close>

fun status_rank :: "message_status \<Rightarrow> nat" where
  "status_rank Sent = 0"
| "status_rank Delivered = 1"
| "status_rank Read = 2"

record user =
  user_id :: ident
  user_email :: string
  user_username :: "string option"
  user_avatarUrl :: "string option"
  user_isOnline :: bool
  user_lastSeen :: "time option"
  user_createdAt :: time
  user_updatedAt :: time

record conversation =
  conv_id :: ident
  conv_name :: "string option"
  conv_isGroup :: bool
  conv_createdAt :: time
  conv_updatedAt :: time

record participant =
  part_id :: ident
  part_conversationId :: ident
  part_userId :: ident
  part_joinedAt :: time
  part_lastReadAt :: "time option"

record message =
  msg_id :: ident
  msg_conversationId :: ident
  msg_senderId :: ident
  msg_content :: js_string
  msg_status :: message_status
  msg_isEdited :: bool
  msg_createdAt :: time
  msg_updatedAt :: time

text \<open>The database: one list of rows per table, in insertion order.\<close>

record db =
  users :: "user list"
  conversations :: "conversation list"
  conversationParticipants :: "participant list"
  messages :: "message list"

text \<open>
  The events the server sends, with their payloads, and the four ways the handlers
  address them: \<^verbatim>\<open>io.emit\<close> (every connected socket), \<^verbatim>\<open>io.to(room).emit\<close> (every
  socket in the room), \<^verbatim>\<open>socket.to(room).emit\<close> (every socket in the room but the
  emitting socket) and \<^verbatim>\<open>socket.emit\<close> (the socket itself).
\<close>

datatype event =
    UserOnline ident
  | UserOffline ident
  | ConversationJoined ident
  | ConversationLeft ident
  | MessageNew message "user option"
  | ConversationUpdate ident message "user option"
  | TypingUpdate ident ident bool
  | MessageStatusUpdate ident message_status ident
  | ErrorEvent string

datatype target =
    ToAll
  | ToRoom string
  | ToRoomExcept string ident
  | ToSocket ident

text \<open>
  An \<^verbatim>\<open>AuthenticatedSocket\<close>: its id, the optional \<^verbatim>\<open>userId\<close> attached by the
  authentication middleware, and the rooms the handlers joined it to.
\<close>

record socket =
  sock_id :: ident
  sock_userId :: "ident option"
  sock_rooms :: "string set"

text \<open>
  The server: the database, the connected sockets, and the emissions made so far, oldest
  first. Each handler runs from its first statement to its last, with no other handler
  in between; an emission is recorded with the address it was sent to. The database is
  reachable: a query or an update returns, and an insert throws only when it violates a
  foreign key of the schema. Ids that the database generates are inputs of the handlers.
\<close>

record server =
  store :: db
  sockets :: "socket list"
  emitted :: "(target \<times> event) list"

section \<open>Helpers\<close>

text \<open>The room name \<^verbatim>\<open>`conversation:${conversationId}`\<close>.\<close>

definition room :: "ident \<Rightarrow> string" where
  "room cid = ''conversation:'' @ cid"

text \<open>
  \<^verbatim>\<open>String.prototype.trim\<close>: strips the ECMAScript white space and line terminator
  code units from both ends.
\<close>

definition is_js_whitespace :: "16 word \<Rightarrow> bool" where
  "is_js_whitespace c \<longleftrightarrow>
     c = 0x9 \<or> c = 0xA \<or> c = 0xB \<or> c = 0xC \<or> c = 0xD \<or> c = 0x20 \<or> c = 0xA0 \<or>
     c = 0x1680 \<or> (0x2000 \<le> c \<and> c \<le> 0x200A) \<or> c = 0x2028 \<or> c = 0x2029 \<or>
     c = 0x202F \<or> c = 0x205F \<or> c = 0x3000 \<or> c = 0xFEFF"

definition trim :: "js_string \<Rightarrow> js_string" where
  "trim s = rev (dropWhile is_js_whitespace (rev (dropWhile is_js_whitespace s)))"

text \<open>The test \<^verbatim>\<open>!content || content.trim() === ''\<close>.\<close>

definition content_missing :: "js_string \<Rightarrow> bool" where
  "content_missing content \<longleftrightarrow> content = [] \<or> trim content = []"

text \<open>
  The truthiness test on an optional id (\<^verbatim>\<open>if (!socket.userId) return\<close>,
  \<^verbatim>\<open>if (!userId)\<close>): \<^verbatim>\<open>undefined\<close> and the empty string are both falsy.
\<close>

definition truthy_id :: "ident option \<Rightarrow> ident option" where
  "truthy_id x = (case x of None \<Rightarrow> None | Some u \<Rightarrow> if u = [] then None else Some u)"

text \<open>Queries: \<^verbatim>\<open>findFirst\<close> returns the first matching row, or \<^verbatim>\<open>undefined\<close>.\<close>

definition findParticipant :: "db \<Rightarrow> ident \<Rightarrow> ident \<Rightarrow> participant option" where
  "findParticipant d cid uid =
     find (\<lambda>p. part_conversationId p = cid \<and> part_userId p = uid) (conversationParticipants d)"

definition findMessage :: "db \<Rightarrow> ident \<Rightarrow> message option" where
  "findMessage d mid = find (\<lambda>m. msg_id m = mid) (messages d)"

definition findUser :: "db \<Rightarrow> ident \<Rightarrow> user option" where
  "findUser d uid = find (\<lambda>u. user_id u = uid) (users d)"

text \<open>
  \<^verbatim>\<open>db.insert(messages).values({conversationId, senderId, content}).returning()\<close>:
  the database supplies the id, the defaults \<^verbatim>\<open>status = 'sent'\<close> and
  \<^verbatim>\<open>is_edited = false\<close> and both timestamps. The foreign keys of the table require the
  conversation and the sender to exist; a violation makes the insert throw (\<open>None\<close>).
\<close>

definition insertMessage ::
  "db \<Rightarrow> ident \<Rightarrow> time \<Rightarrow> ident \<Rightarrow> ident \<Rightarrow> js_string \<Rightarrow> (message \<times> db) option" where
  "insertMessage d new_id now cid sender content =
     (if cid \<in> set (map conv_id (conversations d)) \<and> sender \<in> set (map user_id (users d))
      then
        let m = \<lparr>msg_id = new_id, msg_conversationId = cid, msg_senderId = sender,
                 msg_content = content, msg_status = Sent, msg_isEdited = False,
                 msg_createdAt = now, msg_updatedAt = now\<rparr>
        in Some (m, d\<lparr>messages := messages d @ [m]\<rparr>)
      else None)"

text \<open>\<^verbatim>\<open>db.update(users).set({isOnline, lastSeen: new Date()}).where(eq(users.id, userId))\<close>.\<close>

definition setPresence :: "db \<Rightarrow> ident \<Rightarrow> bool \<Rightarrow> time \<Rightarrow> db" where
  "setPresence d uid online now =
     d\<lparr>users := map (\<lambda>u. if user_id u = uid
                          then u\<lparr>user_isOnline := online, user_lastSeen := Some now\<rparr>
                          else u) (users d)\<rparr>"

text \<open>Who receives an emission, given the connected sockets.\<close>

fun recipients :: "socket list \<Rightarrow> target \<Rightarrow> ident list" where
  "recipients socks ToAll = map sock_id socks"
| "recipients socks (ToRoom r) = map sock_id (filter (\<lambda>s. r \<in> sock_rooms s) socks)"
| "recipients socks (ToRoomExcept r sid) =
     map sock_id (filter (\<lambda>s. r \<in> sock_rooms s \<and> sock_id s \<noteq> sid) socks)"
| "recipients socks (ToSocket sid) = map sock_id (filter (\<lambda>s. sock_id s = sid) socks)"

definition findSocket :: "server \<Rightarrow> ident \<Rightarrow> socket option" where
  "findSocket srv sid = find (\<lambda>s. sock_id s = sid) (sockets srv)"

definition emit :: "server \<Rightarrow> target \<Rightarrow> event \<Rightarrow> server" where
  "emit srv t e = srv\<lparr>emitted := emitted srv @ [(t, e)]\<rparr>"

section \<open>The Socket.IO handlers (\<^verbatim>\<open>src/lib/socket.ts\<close>)\<close>

text \<open>
  The \<^verbatim>\<open>connection\<close> handler, for a socket that passed the authentication middleware;
  Socket.IO has added the socket to the connected ones when the handler runs, and gives
  every socket an id of its own (a second connection under a connected id does not
  occur). With a user id the handler marks the user online, joins the socket to the room
  of every participant row of the user, and emits \<^verbatim>\<open>user:online\<close> to all sockets.
\<close>

definition on_connection :: "server \<Rightarrow> ident \<Rightarrow> ident option \<Rightarrow> time \<Rightarrow> server" where
  "on_connection srv sid uid now =
     (if findSocket srv sid \<noteq> None then srv
      else
        let sock = \<lparr>sock_id = sid, sock_userId = uid, sock_rooms = {}\<rparr> in
        (case truthy_id uid of
           None \<Rightarrow> srv\<lparr>sockets := sockets srv @ [sock]\<rparr>
         | Some u \<Rightarrow>
             let d = setPresence (store srv) u True now;
                 userConversations = filter (\<lambda>p. part_userId p = u) (conversationParticipants d);
                 joined = sock\<lparr>sock_rooms :=
                            set (map (\<lambda>p. room (part_conversationId p)) userConversations)\<rparr>
             in emit (srv\<lparr>store := d, sockets := sockets srv @ [joined]\<rparr>)
                     ToAll (UserOnline u)))"

text \<open>\<^verbatim>\<open>socket.join(r)\<close> and \<^verbatim>\<open>socket.leave(r)\<close> on the socket with id \<open>sid\<close>.\<close>

definition socket_join :: "server \<Rightarrow> ident \<Rightarrow> string \<Rightarrow> server" where
  "socket_join srv sid r =
     srv\<lparr>sockets := map (\<lambda>s. if sock_id s = sid
                              then s\<lparr>sock_rooms := insert r (sock_rooms s)\<rparr> else s)
                         (sockets srv)\<rparr>"

definition socket_leave :: "server \<Rightarrow> ident \<Rightarrow> string \<Rightarrow> server" where
  "socket_leave srv sid r =
     srv\<lparr>sockets := map (\<lambda>s. if sock_id s = sid
                              then s\<lparr>sock_rooms := sock_rooms s - {r}\<rparr> else s)
                         (sockets srv)\<rparr>"

text \<open>
  The handlers of the client events. An event arrives on a connected socket only: for an
  id that is not connected nothing happens.
\<close>

definition on_conversation_join :: "server \<Rightarrow> ident \<Rightarrow> ident \<Rightarrow> server" where
  "on_conversation_join srv sid conversationId =
     (case findSocket srv sid of
        None \<Rightarrow> srv
      | Some sock \<Rightarrow>
          (case truthy_id (sock_userId sock) of
             None \<Rightarrow> srv
           | Some u \<Rightarrow>
               (case findParticipant (store srv) conversationId u of
                  None \<Rightarrow> srv
                | Some p \<Rightarrow>
                    emit (socket_join srv sid (room conversationId))
                         (ToSocket sid) (ConversationJoined conversationId))))"

definition on_conversation_leave :: "server \<Rightarrow> ident \<Rightarrow> ident \<Rightarrow> server" where
  "on_conversation_leave srv sid conversationId =
     (case findSocket srv sid of
        None \<Rightarrow> srv
      | Some sock \<Rightarrow>
          emit (socket_leave srv sid (room conversationId))
               (ToSocket sid) (ConversationLeft conversationId))"

text \<open>
  \<^verbatim>\<open>message:send\<close>. \<open>new_id\<close> is the id the database gives the new row and \<open>now\<close>
  its clock. A throwing insert is caught and reported to the socket.
\<close>

definition on_message_send ::
  "server \<Rightarrow> ident \<Rightarrow> ident \<Rightarrow> js_string \<Rightarrow> ident \<Rightarrow> time \<Rightarrow> server" where
  "on_message_send srv sid conversationId content new_id now =
     (case findSocket srv sid of
        None \<Rightarrow> srv
      | Some sock \<Rightarrow>
          (case truthy_id (sock_userId sock) of
             None \<Rightarrow> srv
           | Some u \<Rightarrow>
               if content_missing content
               then emit srv (ToSocket sid) (ErrorEvent ''Message content is required'')
               else
                 (case findParticipant (store srv) conversationId u of
                    None \<Rightarrow>
                      emit srv (ToSocket sid)
                        (ErrorEvent ''Not a participant of this conversation'')
                  | Some p \<Rightarrow>
                      (case insertMessage (store srv) new_id now conversationId u (trim content) of
                         None \<Rightarrow> emit srv (ToSocket sid) (ErrorEvent ''Failed to send message'')
                       | Some (m, d) \<Rightarrow>
                           let sender = findUser d u;
                               srv1 = emit (srv\<lparr>store := d\<rparr>)
                                        (ToRoom (room conversationId)) (MessageNew m sender)
                           in emit srv1 (ToRoom (room conversationId))
                                (ConversationUpdate conversationId m sender)))))"

text \<open>\<^verbatim>\<open>typing:start\<close> and \<^verbatim>\<open>typing:stop\<close> differ in the flag they send.\<close>

definition on_typing :: "server \<Rightarrow> ident \<Rightarrow> ident \<Rightarrow> bool \<Rightarrow> server" where
  "on_typing srv sid conversationId isTyping =
     (case findSocket srv sid of
        None \<Rightarrow> srv
      | Some sock \<Rightarrow>
          (case truthy_id (sock_userId sock) of
             None \<Rightarrow> srv
           | Some u \<Rightarrow>
               emit srv (ToRoomExcept (room conversationId) sid)
                    (TypingUpdate conversationId u isTyping)))"

definition on_typing_start :: "server \<Rightarrow> ident \<Rightarrow> ident \<Rightarrow> server" where
  "on_typing_start srv sid conversationId = on_typing srv sid conversationId True"

definition on_typing_stop :: "server \<Rightarrow> ident \<Rightarrow> ident \<Rightarrow> server" where
  "on_typing_stop srv sid conversationId = on_typing srv sid conversationId False"

text \<open>
  \<^verbatim>\<open>message:status\<close>:
  \<^verbatim>\<open>db.update(messages).set({ status }).where(eq(messages.id, messageId))\<close>, then the
  row is read back and, when there is one, the update is sent to its conversation's room.
  The interface \<^verbatim>\<open>MessageStatusData\<close> declares the statuses \<^verbatim>\<open>'delivered'\<close> and
  \<^verbatim>\<open>'read'\<close> for the request.
\<close>

definition setMessageStatus :: "db \<Rightarrow> ident \<Rightarrow> message_status \<Rightarrow> db" where
  "setMessageStatus d mid st =
     d\<lparr>messages := map (\<lambda>m. if msg_id m = mid then m\<lparr>msg_status := st\<rparr> else m) (messages d)\<rparr>"

definition on_message_status :: "server \<Rightarrow> ident \<Rightarrow> ident \<Rightarrow> message_status \<Rightarrow> server" where
  "on_message_status srv sid messageId status =
     (case findSocket srv sid of
        None \<Rightarrow> srv
      | Some sock \<Rightarrow>
          (case truthy_id (sock_userId sock) of
             None \<Rightarrow> srv
           | Some u \<Rightarrow>
               let d = setMessageStatus (store srv) messageId status in
               (case findMessage d messageId of
                  None \<Rightarrow> srv\<lparr>store := d\<rparr>
                | Some m \<Rightarrow>
                    emit (srv\<lparr>store := d\<rparr>) (ToRoom (room (msg_conversationId m)))
                         (MessageStatusUpdate messageId status u))))"

text \<open>
  \<^verbatim>\<open>disconnect\<close>: Socket.IO has removed the socket from its rooms and from the connected
  sockets when the handler runs.
\<close>

definition on_disconnect :: "server \<Rightarrow> ident \<Rightarrow> time \<Rightarrow> server" where
  "on_disconnect srv sid now =
     (case findSocket srv sid of
        None \<Rightarrow> srv
      | Some sock \<Rightarrow>
          let srv1 = srv\<lparr>sockets := filter (\<lambda>s. sock_id s \<noteq> sid) (sockets srv)\<rparr> in
          (case truthy_id (sock_userId sock) of
             None \<Rightarrow> srv1
           | Some u \<Rightarrow>
               emit (srv1\<lparr>store := setPresence (store srv1) u False now\<rparr>)
                    ToAll (UserOffline u)))"

section \<open>The REST handlers (\<^verbatim>\<open>src/routes/chat.routes.ts\<close>)\<close>

text \<open>
  A response is its HTTP status and its JSON body. \<open>userId\<close> is \<^verbatim>\<open>req.user?.id\<close>.
  The flag \<open>io\<close> says whether the handler's \<^verbatim>\<open>io\<close> holds the Socket.IO server.
\<close>

datatype body =
    ErrorBody string
  | ConversationBody conversation
  | MessageBody message
  | TextBody string
  | ReadBody string nat

type_synonym response = "nat \<times> body"

text \<open>
  \<^verbatim>\<open>[...new Set(xs)]\<close>: the elements of \<open>xs\<close> in the order of their first occurrence.
\<close>

definition js_Set :: "'a list \<Rightarrow> 'a list" where
  "js_Set xs = fold (\<lambda>x acc. if x \<in> set acc then acc else acc @ [x]) xs []"

text \<open>
  The column \<^verbatim>\<open>user_id\<close> of \<^verbatim>\<open>conversation_participants\<close> has the type uuid, and the
  handler of \<^verbatim>\<open>POST /conversations\<close> hands the database the strings of the request.
  PostgreSQL reads a string as a uuid when it holds 32 hexadecimal digits, in upper or
  lower case, with an optional hyphen after any group of four digits and optional braces
  around the whole; anything else is a syntax error. It returns a uuid in lower case, in
  groups of 8, 4, 4, 4 and 12 digits. \<open>uuid_digits k i src\<close> reads \<open>k\<close> bytes, the next one
  with index \<open>i\<close>, and returns the digits in lower case and the rest of the string.
\<close>

definition hex_lower :: "char \<Rightarrow> char option" where
  "hex_lower c = map_of (zip ''0123456789abcdefABCDEF'' ''0123456789abcdefabcdef'') c"

fun uuid_digits :: "nat \<Rightarrow> nat \<Rightarrow> string \<Rightarrow> (string \<times> string) option" where
  "uuid_digits 0 i src = Some ([], src)"
| "uuid_digits (Suc k) i (a # b # rest) =
     (case (hex_lower a, hex_lower b) of
        (Some x, Some y) \<Rightarrow>
          (case uuid_digits k (Suc i)
                  (case rest of
                     [] \<Rightarrow> rest
                   | c # cs \<Rightarrow> if c = CHR ''-'' \<and> i mod 2 = 1 \<and> i < 15 then cs else rest) of
             None \<Rightarrow> None
           | Some (ds, r) \<Rightarrow> Some (x # y # ds, r))
      | _ \<Rightarrow> None)"
| "uuid_digits (Suc k) i src = None"

definition uuid_out :: "string \<Rightarrow> ident" where
  "uuid_out ds =
     take 8 ds @ ''-'' @ take 4 (drop 8 ds) @ ''-'' @ take 4 (drop 12 ds) @ ''-'' @
     take 4 (drop 16 ds) @ ''-'' @ drop 20 ds"

definition uuid_in :: "string \<Rightarrow> ident option" where
  "uuid_in src =
     (let braces = (case src of [] \<Rightarrow> False | c # cs \<Rightarrow> c = CHR ''{'');
          body = (if braces then tl src else src)
      in case uuid_digits 16 0 body of
           None \<Rightarrow> None
         | Some (ds, r) \<Rightarrow>
             if (if braces then r = ''}'' else r = []) then Some (uuid_out ds) else None)"

text \<open>
  The participant row that \<^verbatim>\<open>POST /conversations\<close> builds for the \<open>i\<close>-th id of
  \<^verbatim>\<open>allParticipants\<close>, and the insert of the rows: one statement, which throws (\<open>None\<close>)
  when a string is not a uuid or when a uuid is not the id of a user (foreign key). The
  table has no unique key on conversation and user.
\<close>

definition participant_row :: "(nat \<Rightarrow> ident) \<Rightarrow> ident \<Rightarrow> time \<Rightarrow> nat \<times> ident \<Rightarrow> participant" where
  "participant_row gen cid now =
     (\<lambda>(i, pId). \<lparr>part_id = gen i, part_conversationId = cid, part_userId = pId,
                   part_joinedAt = now, part_lastReadAt = None\<rparr>)"

definition insertParticipants ::
  "db \<Rightarrow> ident \<Rightarrow> time \<Rightarrow> (nat \<Rightarrow> ident) \<Rightarrow> string list \<Rightarrow> db option" where
  "insertParticipants d cid now gen allParticipants =
     (case those (map uuid_in allParticipants) of
        None \<Rightarrow> None
      | Some ids \<Rightarrow>
          if list_all (\<lambda>pId. pId \<in> set (map user_id (users d))) ids
          then Some (d\<lparr>conversationParticipants :=
                         conversationParticipants d @
                           map (participant_row gen cid now) (enumerate 0 ids)\<rparr>)
          else None)"

text \<open>
  \<^verbatim>\<open>POST /conversations\<close>. \<open>participantIds\<close> is \<open>None\<close> when the body has no array
  there. \<open>new_id\<close> is the id the database gives the conversation and \<open>gen i\<close> the id it
  gives the \<open>i\<close>-th participant row. \<^verbatim>\<open>new Set\<close> compares the strings as JavaScript
  does. When the insert of the participant rows throws, the conversation row is in
  already and stays.
\<close>

definition rest_create_conversation ::
  "server \<Rightarrow> string option \<Rightarrow> string list option \<Rightarrow> string option \<Rightarrow> bool \<Rightarrow>
   ident \<Rightarrow> (nat \<Rightarrow> ident) \<Rightarrow> time \<Rightarrow> response \<times> server" where
  "rest_create_conversation srv userId participantIds name isGroup new_id gen now =
     (case truthy_id userId of
        None \<Rightarrow> ((401, ErrorBody ''Unauthorized''), srv)
      | Some u \<Rightarrow>
          (case participantIds of
             None \<Rightarrow> ((400, ErrorBody ''At least one participant is required''), srv)
           | Some pids \<Rightarrow>
               if length pids = 0
               then ((400, ErrorBody ''At least one participant is required''), srv)
               else
                 let d = store srv;
                     conversation = \<lparr>conv_id = new_id, conv_name = name,
                                     conv_isGroup = (isGroup \<or> length pids > 1),
                                     conv_createdAt = now, conv_updatedAt = now\<rparr>;
                     d1 = d\<lparr>conversations := conversations d @ [conversation]\<rparr>;
                     allParticipants = js_Set (u # pids)
                 in
                   (case insertParticipants d1 (conv_id conversation) now gen allParticipants of
                      Some d2 \<Rightarrow> ((201, ConversationBody conversation), srv\<lparr>store := d2\<rparr>)
                    | None \<Rightarrow>
                        ((500, ErrorBody ''Internal server error''), srv\<lparr>store := d1\<rparr>))))"


text \<open>\<^verbatim>\<open>POST /conversations/:conversationId/messages\<close>.\<close>

definition touchConversation :: "db \<Rightarrow> ident \<Rightarrow> time \<Rightarrow> db" where
  "touchConversation d cid now =
     d\<lparr>conversations := map (\<lambda>c. if conv_id c = cid then c\<lparr>conv_updatedAt := now\<rparr> else c)
                              (conversations d)\<rparr>"

definition rest_send_message ::
  "server \<Rightarrow> bool \<Rightarrow> ident option \<Rightarrow> ident \<Rightarrow> js_string \<Rightarrow> ident \<Rightarrow> time \<Rightarrow>
   response \<times> server" where
  "rest_send_message srv io userId conversationId content new_id now =
     (case truthy_id userId of
        None \<Rightarrow> ((401, ErrorBody ''Unauthorized''), srv)
      | Some u \<Rightarrow>
          if content_missing content
          then ((400, ErrorBody ''Message content is required''), srv)
          else
            (case findParticipant (store srv) conversationId u of
               None \<Rightarrow> ((403, ErrorBody ''Not a participant of this conversation''), srv)
             | Some p \<Rightarrow>
                 (case insertMessage (store srv) new_id now conversationId u (trim content) of
                    None \<Rightarrow> ((500, ErrorBody ''Internal server error''), srv)
                  | Some (m, d) \<Rightarrow>
                      let d1 = touchConversation d conversationId now;
                          sender = findUser d1 u;
                          srv1 = srv\<lparr>store := d1\<rparr>;
                          srv2 = (if io then emit srv1 (ToRoom (room conversationId))
                                                  (MessageNew m sender)
                                  else srv1)
                      in ((201, MessageBody m), srv2))))"

text \<open>\<^verbatim>\<open>PUT /messages/:messageId\<close>.\<close>

definition rest_edit_message ::
  "server \<Rightarrow> ident option \<Rightarrow> ident \<Rightarrow> js_string \<Rightarrow> time \<Rightarrow> response \<times> server" where
  "rest_edit_message srv userId messageId content now =
     (case truthy_id userId of
        None \<Rightarrow> ((401, ErrorBody ''Unauthorized''), srv)
      | Some u \<Rightarrow>
          if content_missing content
          then ((400, ErrorBody ''Message content is required''), srv)
          else
            (case findMessage (store srv) messageId of
               None \<Rightarrow> ((404, ErrorBody ''Message not found''), srv)
             | Some m \<Rightarrow>
                 if msg_senderId m \<noteq> u
                 then ((403, ErrorBody ''Not authorized to edit this message''), srv)
                 else
                   let upd = (\<lambda>x. x\<lparr>msg_content := trim content, msg_isEdited := True,
                                     msg_updatedAt := now\<rparr>);
                       d = store srv;
                       d1 = d\<lparr>messages := map (\<lambda>x. if msg_id x = messageId then upd x else x)
                                               (messages d)\<rparr>
                   in ((200, MessageBody (upd m)), srv\<lparr>store := d1\<rparr>)))"

text \<open>\<^verbatim>\<open>DELETE /messages/:messageId\<close>.\<close>

definition rest_delete_message ::
  "server \<Rightarrow> ident option \<Rightarrow> ident \<Rightarrow> response \<times> server" where
  "rest_delete_message srv userId messageId =
     (case truthy_id userId of
        None \<Rightarrow> ((401, ErrorBody ''Unauthorized''), srv)
      | Some u \<Rightarrow>
          (case findMessage (store srv) messageId of
             None \<Rightarrow> ((404, ErrorBody ''Message not found''), srv)
           | Some m \<Rightarrow>
               if msg_senderId m \<noteq> u
               then ((403, ErrorBody ''Not authorized to delete this message''), srv)
               else
                 let d = store srv;
                     d1 = d\<lparr>messages := filter (\<lambda>x. msg_id x \<noteq> messageId) (messages d)\<rparr>
                 in ((200, TextBody ''Message deleted successfully''), srv\<lparr>store := d1\<rparr>)))"

text \<open>
  \<^verbatim>\<open>POST /conversations/:conversationId/read\<close>: the participant's \<^verbatim>\<open>lastReadAt\<close>
  becomes \<^verbatim>\<open>new Date()\<close>; the messages of the conversation that another user sent and
  that are not read yet become read and are returned; one event per returned message is
  sent to the room when \<^verbatim>\<open>io\<close> is set.
\<close>

definition setLastRead :: "db \<Rightarrow> ident \<Rightarrow> ident \<Rightarrow> time \<Rightarrow> db" where
  "setLastRead d cid uid now =
     d\<lparr>conversationParticipants :=
          map (\<lambda>p. if part_conversationId p = cid \<and> part_userId p = uid
                   then p\<lparr>part_lastReadAt := Some now\<rparr> else p)
              (conversationParticipants d)\<rparr>"

definition unread_from_others :: "ident \<Rightarrow> ident \<Rightarrow> message \<Rightarrow> bool" where
  "unread_from_others cid uid m \<longleftrightarrow>
     msg_conversationId m = cid \<and> msg_senderId m \<noteq> uid \<and> msg_status m \<noteq> Read"

definition rest_mark_read ::
  "server \<Rightarrow> bool \<Rightarrow> ident option \<Rightarrow> ident \<Rightarrow> time \<Rightarrow> response \<times> server" where
  "rest_mark_read srv io userId conversationId now =
     (case truthy_id userId of
        None \<Rightarrow> ((401, ErrorBody ''Unauthorized''), srv)
      | Some u \<Rightarrow>
          let d1 = setLastRead (store srv) conversationId u now;
              updatedMessages = map (\<lambda>m. m\<lparr>msg_status := Read\<rparr>)
                                    (filter (unread_from_others conversationId u) (messages d1));
              d2 = d1\<lparr>messages := map (\<lambda>m. if unread_from_others conversationId u m
                                             then m\<lparr>msg_status := Read\<rparr> else m)
                                       (messages d1)\<rparr>;
              srv1 = srv\<lparr>store := d2\<rparr>;
              srv2 = (if length updatedMessages > 0 \<and> io
                      then fold (\<lambda>m s. emit s (ToRoom (room conversationId))
                                          (MessageStatusUpdate (msg_id m) Read u))
                                updatedMessages srv1
                      else srv1)
          in ((200, ReadBody ''Conversation marked as read'' (length updatedMessages)), srv2))"

text \<open>
  The bulk update of \<^verbatim>\<open>POST /conversations/:conversationId/read\<close> on the rows of the
  messages table.
\<close>

definition markMessagesRead :: "ident \<Rightarrow> ident \<Rightarrow> message list \<Rightarrow> message list" where
  "markMessagesRead cid u ms =
     map (\<lambda>m. if unread_from_others cid u m then m\<lparr>msg_status := Read\<rparr> else m) ms"

section \<open>Sequences of operations\<close>

text \<open>
  One constructor per handler, with the handler's inputs. The server runs a sequence of
  operations from left to right.
\<close>

datatype operation =
    Connect ident "ident option" time
  | Disconnect ident time
  | Join ident ident
  | Leave ident ident
  | Send ident ident js_string ident time
  | TypingStart ident ident
  | TypingStop ident ident
  | Status ident ident message_status
  | CreateConversation "ident option" "ident list option" "string option" bool ident
      "nat \<Rightarrow> ident" time
  | RestSend bool "ident option" ident js_string ident time
  | Edit "ident option" ident js_string time
  | Delete "ident option" ident
  | MarkRead bool "ident option" ident time

fun step :: "server \<Rightarrow> operation \<Rightarrow> server" where
  "step srv (Connect sid uid now) = on_connection srv sid uid now"
| "step srv (Disconnect sid now) = on_disconnect srv sid now"
| "step srv (Join sid cid) = on_conversation_join srv sid cid"
| "step srv (Leave sid cid) = on_conversation_leave srv sid cid"
| "step srv (Send sid cid content new_id now) = on_message_send srv sid cid content new_id now"
| "step srv (TypingStart sid cid) = on_typing_start srv sid cid"
| "step srv (TypingStop sid cid) = on_typing_stop srv sid cid"
| "step srv (Status sid mid st) = on_message_status srv sid mid st"
| "step srv (CreateConversation userId pids name isGroup new_id gen now) =
     snd (rest_create_conversation srv userId pids name isGroup new_id gen now)"
| "step srv (RestSend io userId cid content new_id now) =
     snd (rest_send_message srv io userId cid content new_id now)"
| "step srv (Edit userId mid content now) = snd (rest_edit_message srv userId mid content now)"
| "step srv (Delete userId mid) = snd (rest_delete_message srv userId mid)"
| "step srv (MarkRead io userId cid now) = snd (rest_mark_read srv io userId cid now)"

definition run :: "server \<Rightarrow> operation list \<Rightarrow> server" where
  "run srv ops = foldl step srv ops"

text \<open>The server at start-up over a database: no socket is connected, nothing is emitted.\<close>

definition startup :: "db \<Rightarrow> server" where
  "startup d = \<lparr>store = d, sockets = [], emitted = []\<rparr>"

section \<open>Rooms confirmed by the store\<close>

text \<open>
  The rooms of the conversations in which a user has a participant row; a socket is
  confirmed when its rooms are among those of its user (and it has no room when it has no
  user id); the server's rooms are confirmed when every connected socket is, the socket
  ids being pairwise different.
\<close>

definition participant_rooms :: "db \<Rightarrow> ident \<Rightarrow> string set" where
  "participant_rooms d u =
     set (map (\<lambda>p. room (part_conversationId p))
            (filter (\<lambda>p. part_userId p = u) (conversationParticipants d)))"

definition socket_confirmed :: "db \<Rightarrow> socket \<Rightarrow> bool" where
  "socket_confirmed d s \<longleftrightarrow>
     (case truthy_id (sock_userId s) of
        None \<Rightarrow> sock_rooms s = {}
      | Some u \<Rightarrow> sock_rooms s \<subseteq> participant_rooms d u)"

definition rooms_confirmed :: "server \<Rightarrow> bool" where
  "rooms_confirmed srv \<longleftrightarrow>
     list_all (socket_confirmed (store srv)) (sockets srv) \<and>
     distinct (map sock_id (sockets srv))"

section \<open>A small installation\<close>

text \<open>
  Three users; conversation \<open>c1\<close> between \<open>u1\<close> and \<open>u2\<close>, conversation \<open>c2\<close> between
  \<open>u2\<close> and \<open>u3\<close>; one message \<open>m1\<close> (the text "hi") from \<open>u1\<close> in \<open>c1\<close>, already read.
\<close>

definition mk_user :: "ident \<Rightarrow> string \<Rightarrow> user" where
  "mk_user uid mail =
     \<lparr>user_id = uid, user_email = mail, user_username = None, user_avatarUrl = None,
      user_isOnline = False, user_lastSeen = None, user_createdAt = 0, user_updatedAt = 0\<rparr>"

definition mk_participant :: "ident \<Rightarrow> ident \<Rightarrow> ident \<Rightarrow> participant" where
  "mk_participant pid cid uid =
     \<lparr>part_id = pid, part_conversationId = cid, part_userId = uid, part_joinedAt = 1,
      part_lastReadAt = None\<rparr>"

definition hi :: js_string where
  "hi = [0x68, 0x69]"

definition example_message :: message where
  "example_message =
     \<lparr>msg_id = ''m1'', msg_conversationId = ''c1'', msg_senderId = ''u1'', msg_content = hi,
      msg_status = Read, msg_isEdited = False, msg_createdAt = 2, msg_updatedAt = 2\<rparr>"

definition example_db :: db where
  "example_db =
     \<lparr>users = [mk_user ''u1'' ''a@x'', mk_user ''u2'' ''b@x'', mk_user ''u3'' ''c@x''],
      conversations =
        [\<lparr>conv_id = ''c1'', conv_name = None, conv_isGroup = False,
          conv_createdAt = 1, conv_updatedAt = 1\<rparr>,
         \<lparr>conv_id = ''c2'', conv_name = None, conv_isGroup = False,
          conv_createdAt = 1, conv_updatedAt = 1\<rparr>],
      conversationParticipants =
        [mk_participant ''p1'' ''c1'' ''u1'', mk_participant ''p2'' ''c1'' ''u2'',
         mk_participant ''p3'' ''c2'' ''u2'', mk_participant ''p4'' ''c2'' ''u3''],
      messages = [example_message]\<rparr>"

text \<open>
  The installation with four live connections: \<open>A\<close> and \<open>B\<close> are two devices of \<open>u1\<close>,
  \<open>C\<close> belongs to \<open>u2\<close> and \<open>D\<close> to \<open>u3\<close>.
\<close>

definition live_server :: server where
  "live_server = run (startup example_db)
     [Connect ''A'' (Some ''u1'') 5, Connect ''B'' (Some ''u1'') 6,
      Connect ''C'' (Some ''u2'') 7, Connect ''D'' (Some ''u3'') 8]"

text \<open>The installation after \<open>u1\<close> has sent "hi" to \<open>c1\<close> on connection \<open>A\<close>.\<close>

definition sent_server :: server where
  "sent_server = on_message_send live_server ''A'' ''c1'' hi ''m2'' 9"

text \<open>Then \<open>u2\<close> marks \<open>c1\<close> as read at time 10.\<close>

definition read_once :: server where
  "read_once = snd (rest_mark_read sent_server True (Some ''u2'') ''c1'' 10)"








section \<open>Evaluating the installation\<close>

lemmas handler_defs =
  run_def startup_def on_connection_def on_disconnect_def on_conversation_join_def
  on_conversation_leave_def on_message_send_def on_typing_def on_typing_start_def
  on_typing_stop_def on_message_status_def findSocket_def truthy_id_def setPresence_def
  emit_def room_def findParticipant_def findMessage_def findUser_def insertMessage_def
  setMessageStatus_def socket_join_def socket_leave_def content_missing_def trim_def
  is_js_whitespace_def

lemmas example_defs = example_db_def example_message_def mk_user_def mk_participant_def hi_def

lemma live_server_sockets:
  "sockets live_server =
     [\<lparr>sock_id = ''A'', sock_userId = Some ''u1'', sock_rooms = {''conversation:c1''}\<rparr>,
      \<lparr>sock_id = ''B'', sock_userId = Some ''u1'', sock_rooms = {''conversation:c1''}\<rparr>,
      \<lparr>sock_id = ''C'', sock_userId = Some ''u2'',
        sock_rooms = {''conversation:c1'', ''conversation:c2''}\<rparr>,
      \<lparr>sock_id = ''D'', sock_userId = Some ''u3'', sock_rooms = {''conversation:c2''}\<rparr>]"
  by (simp add: live_server_def handler_defs example_defs del: set_filter)

lemma live_server_emitted:
  "emitted live_server =
     [(ToAll, UserOnline ''u1''), (ToAll, UserOnline ''u1''), (ToAll, UserOnline ''u2''),
      (ToAll, UserOnline ''u3'')]"
  by (simp add: live_server_def handler_defs example_defs)

lemma live_server_store:
  "store live_server =
     example_db\<lparr>users :=
       [(mk_user ''u1'' ''a@x'')\<lparr>user_isOnline := True, user_lastSeen := Some 6\<rparr>,
        (mk_user ''u2'' ''b@x'')\<lparr>user_isOnline := True, user_lastSeen := Some 7\<rparr>,
        (mk_user ''u3'' ''c@x'')\<lparr>user_isOnline := True, user_lastSeen := Some 8\<rparr>]\<rparr>"
  by (simp add: live_server_def handler_defs example_defs)

lemma socket_C:
  "findSocket live_server ''C'' =
     Some \<lparr>sock_id = ''C'', sock_userId = Some ''u2'',
           sock_rooms = {''conversation:c1'', ''conversation:c2''}\<rparr>"
  by (simp add: findSocket_def live_server_sockets)

lemma socket_D:
  "findSocket live_server ''D'' =
     Some \<lparr>sock_id = ''D'', sock_userId = Some ''u3'', sock_rooms = {''conversation:c2''}\<rparr>"
  by (simp add: findSocket_def live_server_sockets)

lemma socket_A:
  "findSocket live_server ''A'' =
     Some \<lparr>sock_id = ''A'', sock_userId = Some ''u1'', sock_rooms = {''conversation:c1''}\<rparr>"
  by (simp add: findSocket_def live_server_sockets)

lemma message_m1: "findMessage (store live_server) ''m1'' = Some example_message"
  by (simp add: live_server_store findMessage_def example_defs)

section \<open>Emissions\<close>

lemma store_emit [simp]: "store (emit srv t e) = store srv"
  by (simp add: emit_def)

lemma sockets_emit [simp]: "sockets (emit srv t e) = sockets srv"
  by (simp add: emit_def)

lemma emitted_emit [simp]: "emitted (emit srv t e) = emitted srv @ [(t, e)]"
  by (simp add: emit_def)

section \<open>Message status (\<^verbatim>\<open>message:status\<close>)\<close>

lemma find_map_status:
  "find (\<lambda>m. msg_id m = mid) ms = Some m \<Longrightarrow>
   find (\<lambda>m. msg_id m = mid)
        (map (\<lambda>m. if msg_id m = mid then m\<lparr>msg_status := st\<rparr> else m) ms)
     = Some (m\<lparr>msg_status := st\<rparr>)"
  by (induction ms) (auto split: if_splits)

lemma findMessage_setMessageStatus:
  "findMessage d mid = Some m \<Longrightarrow>
   findMessage (setMessageStatus d mid st) mid = Some (m\<lparr>msg_status := st\<rparr>)"
  by (simp add: findMessage_def setMessageStatus_def find_map_status)

lemma on_message_status_found:
  assumes "findSocket srv sid = Some sock"
    and "truthy_id (sock_userId sock) = Some u"
    and "findMessage (store srv) mid = Some m"
  shows "on_message_status srv sid mid st =
           emit (srv\<lparr>store := setMessageStatus (store srv) mid st\<rparr>)
                (ToRoom (room (msg_conversationId m))) (MessageStatusUpdate mid st u)"
  using assms by (simp add: on_message_status_def findMessage_setMessageStatus)

text \<open>
  Claim C1, as the code has it. A \<^verbatim>\<open>message:status\<close> request from a connection with a
  user id, for a message that exists, carrying a status equal to or earlier than the
  message's current one (in the order sent, delivered, read), is not an error: the handler
  stores the requested status whatever the current one is, so an equal status leaves
  the row as it was and an earlier status regresses it, and in both cases it emits one
  \<^verbatim>\<open>message:status:update\<close> to the room of the message's conversation.
\<close>

theorem message_status_overwrites:
  assumes "findSocket srv sid = Some sock"
    and "truthy_id (sock_userId sock) = Some u"
    and "findMessage (store srv) mid = Some m"
    and "status_rank st \<le> status_rank (msg_status m)"
  shows "findMessage (store (on_message_status srv sid mid st)) mid = Some (m\<lparr>msg_status := st\<rparr>)
       \<and> emitted (on_message_status srv sid mid st) =
           emitted srv @ [(ToRoom (room (msg_conversationId m)), MessageStatusUpdate mid st u)]"
  using assms(1-3)
  by (simp add: on_message_status_found emit_def findMessage_setMessageStatus)

text \<open>
  At the installation: connection \<open>C\<close> repeats the status read for the read message
  \<open>m1\<close>; the row stays as it is and the update is broadcast again.
\<close>

theorem message_status_overwrites_witness:
  "findMessage (store (on_message_status live_server ''C'' ''m1'' Read)) ''m1''
     = Some example_message
   \<and> emitted (on_message_status live_server ''C'' ''m1'' Read) =
       emitted live_server @ [(ToRoom ''conversation:c1'', MessageStatusUpdate ''m1'' Read ''u2'')]"
proof -
  have u: "truthy_id (sock_userId \<lparr>sock_id = ''C'', sock_userId = Some ''u2'',
            sock_rooms = {''conversation:c1'', ''conversation:c2''}\<rparr>) = Some ''u2''"
    by (simp add: truthy_id_def)
  have r: "status_rank Read \<le> status_rank (msg_status example_message)"
    by (simp add: example_defs)
  have e: "example_message\<lparr>msg_status := Read\<rparr> = example_message"
    by (simp add: example_defs)
  show ?thesis
    using message_status_overwrites [OF socket_C u message_m1 r]
    by (simp add: e room_def example_defs)
qed

text \<open>
  Claim C1 as stated fails: the read message \<open>m1\<close> receives the earlier status delivered
  from connection \<open>C\<close>; its stored status becomes delivered and the update is broadcast.
\<close>

theorem message_status_regresses_counterexample:
  "findMessage (store live_server) ''m1'' = Some example_message
   \<and> msg_status example_message = Read
   \<and> status_rank Delivered < status_rank Read
   \<and> map msg_status (messages (store (on_message_status live_server ''C'' ''m1'' Delivered)))
       = [Delivered]
   \<and> emitted (on_message_status live_server ''C'' ''m1'' Delivered) =
       emitted live_server @
         [(ToRoom ''conversation:c1'', MessageStatusUpdate ''m1'' Delivered ''u2'')]"
  by (simp add: live_server_store live_server_sockets live_server_emitted
      on_message_status_def findSocket_def truthy_id_def setMessageStatus_def findMessage_def
      emit_def room_def example_defs)

section \<open>No participant check on \<^verbatim>\<open>message:status\<close>\<close>





section \<open>Presence (\<^verbatim>\<open>connection\<close> and \<^verbatim>\<open>disconnect\<close>)\<close>

lemma on_connection_new:
  assumes "findSocket srv sid = None" and "truthy_id uid = Some u"
  shows "on_connection srv sid uid now =
     emit (srv\<lparr>store := setPresence (store srv) u True now,
               sockets := sockets srv @
                 [\<lparr>sock_id = sid, sock_userId = uid,
                   sock_rooms = set (map (\<lambda>p. room (part_conversationId p))
                     (filter (\<lambda>p. part_userId p = u)
                        (conversationParticipants (setPresence (store srv) u True now))))\<rparr>]\<rparr>)
          ToAll (UserOnline u)"
  using assms by (simp add: on_connection_def Let_def del: set_filter set_map)

lemma on_disconnect_found:
  assumes "findSocket srv sid = Some sock" and "truthy_id (sock_userId sock) = Some u"
  shows "on_disconnect srv sid now =
     emit (srv\<lparr>sockets := filter (\<lambda>s. sock_id s \<noteq> sid) (sockets srv),
               store := setPresence (store srv) u False now\<rparr>)
          ToAll (UserOffline u)"
  using assms by (simp add: on_disconnect_def Let_def)

lemma setPresence_offline:
  "\<forall>x \<in> set (map (\<lambda>x. if user_id x = u
                          then x\<lparr>user_isOnline := False, user_lastSeen := Some now\<rparr>
                          else x) us).
     user_id x = u \<longrightarrow> \<not> user_isOnline x"
  by (induction us) (simp_all del: set_map)

text \<open>
  Claim C2, as the code has it. Presence follows connections, not users: every new
  connection with a user id emits \<^verbatim>\<open>user:online\<close> to all sockets, and every
  disconnect of such a connection at once marks the user offline in the store and emits
  \<^verbatim>\<open>user:offline\<close> to all sockets, whatever other connections of the user are open.
\<close>

theorem presence_follows_connections:
  "(findSocket srv sid = None \<and> truthy_id uid = Some u \<longrightarrow>
      emitted (on_connection srv sid uid now) = emitted srv @ [(ToAll, UserOnline u)])
   \<and> (findSocket srv sid = Some sock \<and> truthy_id (sock_userId sock) = Some u \<longrightarrow>
      emitted (on_disconnect srv sid now) = emitted srv @ [(ToAll, UserOffline u)]
      \<and> sockets (on_disconnect srv sid now) = filter (\<lambda>s. sock_id s \<noteq> sid) (sockets srv)
      \<and> (\<forall>x \<in> set (users (store (on_disconnect srv sid now))).
            user_id x = u \<longrightarrow> \<not> user_isOnline x))"
proof (intro conjI impI)
  assume "findSocket srv sid = None \<and> truthy_id uid = Some u"
  then have "findSocket srv sid = None" and "truthy_id uid = Some u" by simp_all
  from on_connection_new [OF this]
  show "emitted (on_connection srv sid uid now) = emitted srv @ [(ToAll, UserOnline u)]"
    by simp
next
  assume "findSocket srv sid = Some sock \<and> truthy_id (sock_userId sock) = Some u"
  then have "findSocket srv sid = Some sock" and "truthy_id (sock_userId sock) = Some u"
    by simp_all
  note eq = on_disconnect_found [OF this, of now]
  show "emitted (on_disconnect srv sid now) = emitted srv @ [(ToAll, UserOffline u)]"
    unfolding eq by simp
  show "sockets (on_disconnect srv sid now) = filter (\<lambda>s. sock_id s \<noteq> sid) (sockets srv)"
    unfolding eq by simp
  have u: "users (store (on_disconnect srv sid now)) =
      map (\<lambda>x. if user_id x = u
                then x\<lparr>user_isOnline := False, user_lastSeen := Some now\<rparr>
                else x) (users (store srv))"
    unfolding eq by (simp add: setPresence_def)
  show "\<forall>x \<in> set (users (store (on_disconnect srv sid now))).
            user_id x = u \<longrightarrow> \<not> user_isOnline x"
    unfolding u by (rule setPresence_offline)
qed

text \<open>
  At the installation: a fifth connection \<open>E\<close> of \<open>u1\<close>, who has \<open>A\<close> and \<open>B\<close> open,
  emits \<^verbatim>\<open>user:online\<close> again; the disconnect of \<open>A\<close> emits \<^verbatim>\<open>user:offline\<close>.
\<close>

theorem presence_follows_connections_witness:
  "emitted (on_connection live_server ''E'' (Some ''u1'') 9) =
     emitted live_server @ [(ToAll, UserOnline ''u1'')]
   \<and> emitted (on_disconnect live_server ''A'' 9) =
       emitted live_server @ [(ToAll, UserOffline ''u1'')]
   \<and> map sock_id (sockets (on_disconnect live_server ''A'' 9)) = [''B'', ''C'', ''D'']"
proof -
  have e: "findSocket live_server ''E'' = None"
    by (simp add: findSocket_def live_server_sockets)
  have u: "truthy_id (Some ''u1'') = Some ''u1''"
    by (simp add: truthy_id_def)
  have u': "truthy_id (sock_userId \<lparr>sock_id = ''A'', sock_userId = Some ''u1'',
              sock_rooms = {''conversation:c1''}\<rparr>) = Some ''u1''"
    by (simp add: truthy_id_def)
  have f: "map sock_id (filter (\<lambda>s. sock_id s \<noteq> ''A'') (sockets live_server)) =
             [''B'', ''C'', ''D'']"
    by (simp add: live_server_sockets)
  from presence_follows_connections
    [of live_server "''E''" "Some ''u1''" "''u1''" 9 "\<lparr>sock_id = ''A'', sock_userId = Some ''u1'',
              sock_rooms = {''conversation:c1''}\<rparr>"] e u
  have 1: "emitted (on_connection live_server ''E'' (Some ''u1'') 9) =
     emitted live_server @ [(ToAll, UserOnline ''u1'')]" by simp
  from presence_follows_connections
    [of live_server "''A''" "Some ''u1''" "''u1''" 9 "\<lparr>sock_id = ''A'', sock_userId = Some ''u1'',
              sock_rooms = {''conversation:c1''}\<rparr>"] socket_A u'
  have 2: "emitted (on_disconnect live_server ''A'' 9) =
       emitted live_server @ [(ToAll, UserOffline ''u1'')]"
    and 3: "sockets (on_disconnect live_server ''A'' 9) =
       filter (\<lambda>s. sock_id s \<noteq> ''A'') (sockets live_server)"
    by simp_all
  show ?thesis using 1 2 f unfolding 3 by (intro conjI)
qed

text \<open>
  Claim C2 as stated fails. User \<open>u1\<close> has the connections \<open>A\<close> and \<open>B\<close> (each of which
  emitted \<^verbatim>\<open>user:online\<close>); \<open>A\<close> disconnects and \<open>B\<close> stays open: \<^verbatim>\<open>user:offline\<close>
  is emitted at once and the store says that \<open>u1\<close> is offline.
\<close>

theorem offline_while_other_device_open_counterexample:
  "emitted live_server =
     [(ToAll, UserOnline ''u1''), (ToAll, UserOnline ''u1''), (ToAll, UserOnline ''u2''),
      (ToAll, UserOnline ''u3'')]
   \<and> map sock_id (sockets (on_disconnect live_server ''A'' 9)) = [''B'', ''C'', ''D'']
   \<and> map sock_userId (sockets (on_disconnect live_server ''A'' 9)) =
       [Some ''u1'', Some ''u2'', Some ''u3'']
   \<and> emitted (on_disconnect live_server ''A'' 9) =
       emitted live_server @ [(ToAll, UserOffline ''u1'')]
   \<and> map user_id (users (store (on_disconnect live_server ''A'' 9))) = [''u1'', ''u2'', ''u3'']
   \<and> map user_isOnline (users (store (on_disconnect live_server ''A'' 9))) =
       [False, True, True]"
  by (simp add: live_server_store live_server_sockets live_server_emitted
      on_disconnect_def findSocket_def truthy_id_def setPresence_def emit_def example_defs)

section \<open>Sending as a non-participant (\<^verbatim>\<open>message:send\<close>)\<close>

lemma recipients_ToSocket: "set (recipients socks (ToSocket sid)) \<subseteq> {sid}"
  by (induction socks) simp_all

text \<open>
  Claim C3, as the code has it. A \<^verbatim>\<open>message:send\<close> from a connection whose user has
  no participant row in the conversation is rejected with one \<^verbatim>\<open>error\<close> event sent to
  the requesting socket alone; the database and the sockets are exactly as before, so no
  message row is created and nothing is broadcast. The content is examined first: the
  error says that the user is not a participant when the content has text, and that
  content is required when it is empty or blank.
\<close>

theorem send_by_non_participant_rejected:
  assumes "findSocket srv sid = Some sock"
    and "truthy_id (sock_userId sock) = Some u"
    and "findParticipant (store srv) cid u = None"
  shows "store (on_message_send srv sid cid content new_id now) = store srv
       \<and> sockets (on_message_send srv sid cid content new_id now) = sockets srv
       \<and> emitted (on_message_send srv sid cid content new_id now) =
           emitted srv @
             [(ToSocket sid,
               ErrorEvent (if content_missing content then ''Message content is required''
                           else ''Not a participant of this conversation''))]
       \<and> set (recipients (sockets srv) (ToSocket sid)) \<subseteq> {sid}"
  using assms recipients_ToSocket [of "sockets srv" sid]
  by (simp add: on_message_send_def)

text \<open>
  At the installation: \<open>u3\<close>, who takes no part in \<open>c1\<close>, sends "hi" there on
  connection \<open>D\<close>; the error reaches \<open>D\<close> alone.
\<close>

theorem send_by_non_participant_rejected_witness:
  "store (on_message_send live_server ''D'' ''c1'' hi ''m2'' 9) = store live_server
   \<and> sockets (on_message_send live_server ''D'' ''c1'' hi ''m2'' 9) = sockets live_server
   \<and> emitted (on_message_send live_server ''D'' ''c1'' hi ''m2'' 9) =
       emitted live_server @
         [(ToSocket ''D'', ErrorEvent ''Not a participant of this conversation'')]
   \<and> recipients (sockets live_server) (ToSocket ''D'') = [''D'']"
proof -
  have u: "truthy_id (sock_userId \<lparr>sock_id = ''D'', sock_userId = Some ''u3'',
            sock_rooms = {''conversation:c2''}\<rparr>) = Some ''u3''"
    by (simp add: truthy_id_def)
  have p: "findParticipant (store live_server) ''c1'' ''u3'' = None"
    by (simp add: live_server_store findParticipant_def example_defs)
  have c: "\<not> content_missing hi"
    by (simp add: content_missing_def trim_def is_js_whitespace_def hi_def)
  have r: "recipients (sockets live_server) (ToSocket ''D'') = [''D'']"
    by (simp add: live_server_sockets)
  show ?thesis
    using send_by_non_participant_rejected [OF socket_D u p, of hi "''m2''" 9] c r by simp
qed

text \<open>
  Claim C3 as stated fails on the error that is reported: \<open>u3\<close> sends an empty content
  to \<open>c1\<close>, where it has no participant row, and receives the error for missing content.
\<close>

theorem send_by_non_participant_counterexample:
  "findParticipant (store live_server) ''c1'' ''u3'' = None
   \<and> emitted (on_message_send live_server ''D'' ''c1'' [] ''m2'' 9) =
       emitted live_server @ [(ToSocket ''D'', ErrorEvent ''Message content is required'')]"
  by (simp add: live_server_store live_server_sockets live_server_emitted
      on_message_send_def findSocket_def truthy_id_def findParticipant_def content_missing_def
      emit_def example_defs)

section \<open>Typing indicators (\<^verbatim>\<open>typing:start\<close>, \<^verbatim>\<open>typing:stop\<close>)\<close>

lemma on_typing_found:
  assumes "findSocket srv sid = Some sock" and "truthy_id (sock_userId sock) = Some u"
  shows "on_typing srv sid cid b =
           emit srv (ToRoomExcept (room cid) sid) (TypingUpdate cid u b)"
  using assms by (simp add: on_typing_def)

lemma recipients_ToRoomExcept:
  "set (recipients socks (ToRoomExcept r sid)) =
     sock_id ` {s \<in> set socks. r \<in> sock_rooms s \<and> sock_id s \<noteq> sid}"
  by simp

text \<open>
  Claim C8, as the code has it. \<^verbatim>\<open>typing:start\<close> and \<^verbatim>\<open>typing:stop\<close> from a
  connection with a user id emit one \<^verbatim>\<open>typing:update\<close>, carrying the flag true or
  false, to the conversation's room except the originating socket: it reaches every
  connection in the room other than that socket, those of the typist's other devices
  included, and never the originating socket.
\<close>

theorem typing_reaches_room_except_origin_socket:
  assumes "findSocket srv sid = Some sock"
    and "truthy_id (sock_userId sock) = Some u"
  shows "emitted (on_typing_start srv sid cid) =
           emitted srv @ [(ToRoomExcept (room cid) sid, TypingUpdate cid u True)]
       \<and> emitted (on_typing_stop srv sid cid) =
           emitted srv @ [(ToRoomExcept (room cid) sid, TypingUpdate cid u False)]
       \<and> sockets (on_typing_start srv sid cid) = sockets srv
       \<and> sockets (on_typing_stop srv sid cid) = sockets srv
       \<and> set (recipients (sockets srv) (ToRoomExcept (room cid) sid)) =
           sock_id ` {s \<in> set (sockets srv). room cid \<in> sock_rooms s \<and> sock_id s \<noteq> sid}"
  unfolding on_typing_start_def on_typing_stop_def on_typing_found [OF assms]
    recipients_ToRoomExcept
  by simp

text \<open>
  At the installation: \<open>C\<close> (user \<open>u2\<close>) types in \<open>c1\<close>; both devices of \<open>u1\<close> receive
  the update and \<open>C\<close> does not.
\<close>

theorem typing_reaches_room_except_origin_socket_witness:
  "emitted (on_typing_start live_server ''C'' ''c1'') =
     emitted live_server @
       [(ToRoomExcept ''conversation:c1'' ''C'', TypingUpdate ''c1'' ''u2'' True)]
   \<and> recipients (sockets (on_typing_start live_server ''C'' ''c1''))
        (ToRoomExcept ''conversation:c1'' ''C'') = [''A'', ''B'']"
proof -
  have u: "truthy_id (sock_userId \<lparr>sock_id = ''C'', sock_userId = Some ''u2'',
            sock_rooms = {''conversation:c1'', ''conversation:c2''}\<rparr>) = Some ''u2''"
    by (simp add: truthy_id_def)
  have r: "recipients (sockets live_server) (ToRoomExcept ''conversation:c1'' ''C'') =
             [''A'', ''B'']"
    by (simp add: live_server_sockets)
  have c: "room ''c1'' = ''conversation:c1''"
    by (simp add: room_def)
  note t = typing_reaches_room_except_origin_socket [OF socket_C u, of "''c1''", unfolded c]
  from t have 1: "emitted (on_typing_start live_server ''C'' ''c1'') =
     emitted live_server @
       [(ToRoomExcept ''conversation:c1'' ''C'', TypingUpdate ''c1'' ''u2'' True)]"
    by (rule conjunct1)
  from t have 2: "sockets (on_typing_start live_server ''C'' ''c1'') = sockets live_server"
    by (rule conjunct1 [OF conjunct2 [OF conjunct2]])
  show ?thesis using 1 r unfolding 2 by (intro conjI)
qed

text \<open>
  Claim C8 as stated fails. User \<open>u1\<close> has the connections \<open>A\<close> and \<open>B\<close>, both in the
  room of \<open>c1\<close>; \<open>A\<close> starts typing and \<open>B\<close>, a connection of the typist's own user,
  is among the receivers.
\<close>

theorem typing_reaches_own_other_device_counterexample:
  "map sock_id (sockets live_server) = [''A'', ''B'', ''C'', ''D'']
   \<and> map sock_userId (sockets live_server) =
       [Some ''u1'', Some ''u1'', Some ''u2'', Some ''u3'']
   \<and> emitted (on_typing_start live_server ''A'' ''c1'') =
       emitted live_server @
         [(ToRoomExcept ''conversation:c1'' ''A'', TypingUpdate ''c1'' ''u1'' True)]
   \<and> recipients (sockets (on_typing_start live_server ''A'' ''c1''))
        (ToRoomExcept ''conversation:c1'' ''A'') = [''B'', ''C'']"
  by (simp add: live_server_sockets live_server_emitted on_typing_start_def on_typing_def
      findSocket_def truthy_id_def emit_def room_def)

section \<open>Editing and deleting another user's message\<close>

text \<open>
  Claim C7, as the code has it. When a user other than the sender asks to delete an
  existing message, or to edit it with a content that has text, the answer is 403 and the
  server state, the message row included, is unchanged in every field. An edit with an
  empty or blank content is turned down earlier, with 400, and changes nothing either.
\<close>

theorem edit_delete_by_other_user_rejected:
  assumes "truthy_id userId = Some u"
    and "findMessage (store srv) mid = Some m"
    and "msg_senderId m \<noteq> u"
  shows "rest_delete_message srv userId mid =
           ((403, ErrorBody ''Not authorized to delete this message''), srv)
       \<and> rest_edit_message srv userId mid content now =
           (if content_missing content
            then ((400, ErrorBody ''Message content is required''), srv)
            else ((403, ErrorBody ''Not authorized to edit this message''), srv))"
  using assms by (simp add: rest_delete_message_def rest_edit_message_def)

text \<open>At the installation: \<open>u2\<close> tries to delete and to rewrite \<open>m1\<close>, which \<open>u1\<close> sent.\<close>

theorem edit_delete_by_other_user_rejected_witness:
  "rest_delete_message live_server (Some ''u2'') ''m1'' =
     ((403, ErrorBody ''Not authorized to delete this message''), live_server)
   \<and> rest_edit_message live_server (Some ''u2'') ''m1'' hi 9 =
       ((403, ErrorBody ''Not authorized to edit this message''), live_server)"
proof -
  have u: "truthy_id (Some ''u2'') = Some ''u2''"
    by (simp add: truthy_id_def)
  have s: "msg_senderId example_message \<noteq> ''u2''"
    by (simp add: example_defs)
  have c: "\<not> content_missing hi"
    by (simp add: content_missing_def trim_def is_js_whitespace_def hi_def)
  show ?thesis
    using edit_delete_by_other_user_rejected [OF u message_m1 s, of hi 9] c by simp
qed

text \<open>
  Claim C7 as stated fails on the status of the answer: \<open>u2\<close> asks to edit \<open>m1\<close>, sent
  by \<open>u1\<close>, with an empty content, and the answer is 400, not 403.
\<close>

theorem edit_by_other_user_counterexample:
  "findMessage (store live_server) ''m1'' = Some example_message
   \<and> msg_senderId example_message = ''u1''
   \<and> rest_edit_message live_server (Some ''u2'') ''m1'' [] 9 =
       ((400, ErrorBody ''Message content is required''), live_server)"
  by (simp add: message_m1 rest_edit_message_def truthy_id_def content_missing_def example_defs)

section \<open>Sending a message\<close>

lemma sent_server_store:
  "store sent_server =
     (store live_server)\<lparr>messages :=
        [example_message,
         \<lparr>msg_id = ''m2'', msg_conversationId = ''c1'', msg_senderId = ''u1'',
          msg_content = hi, msg_status = Sent, msg_isEdited = False,
          msg_createdAt = 9, msg_updatedAt = 9\<rparr>]\<rparr>"
  by (simp add: sent_server_def live_server_store live_server_sockets
      on_message_send_def findSocket_def truthy_id_def findParticipant_def content_missing_def
      trim_def is_js_whitespace_def insertMessage_def findUser_def emit_def Let_def example_defs)

lemma on_message_send_conversations:
  "conversations (store (on_message_send srv sid cid content new_id now)) =
     conversations (store srv)"
  by (simp add: on_message_send_def insertMessage_def Let_def
      split: option.splits if_splits prod.splits)

text \<open>
  Claim C6 at a failing input: \<open>u1\<close>, a participant of \<open>c1\<close>, sends "hi" on connection
  \<open>A\<close> at time 9. The message is stored with status sent and \<^verbatim>\<open>message:new\<close> goes to
  the room, but \<^verbatim>\<open>updatedAt\<close> of \<open>c1\<close> keeps its old value 1; the same send over REST
  sets it to 9.
\<close>

theorem socket_send_keeps_updatedAt:
  "map msg_id (messages (store sent_server)) = [''m1'', ''m2'']
   \<and> map msg_status (messages (store sent_server)) = [Read, Sent]
   \<and> map fst (emitted sent_server) =
       map fst (emitted live_server) @ [ToRoom ''conversation:c1'', ToRoom ''conversation:c1'']
   \<and> map conv_id (conversations (store sent_server)) = [''c1'', ''c2'']
   \<and> map conv_updatedAt (conversations (store live_server)) = [1, 1]
   \<and> map conv_updatedAt (conversations (store sent_server)) = [1, 1]
   \<and> fst (fst (rest_send_message live_server True (Some ''u1'') ''c1'' hi ''m2'' 9)) = 201
   \<and> map conv_updatedAt (conversations (store (snd
         (rest_send_message live_server True (Some ''u1'') ''c1'' hi ''m2'' 9)))) = [9, 1]"
  by (simp add: sent_server_def live_server_store live_server_sockets live_server_emitted
      on_message_send_def rest_send_message_def touchConversation_def
      findSocket_def truthy_id_def findParticipant_def content_missing_def
      trim_def is_js_whitespace_def insertMessage_def findUser_def emit_def room_def
      Let_def example_defs)

section \<open>Marking a conversation as read\<close>


lemma fold_emit_store:
  "store (fold (\<lambda>m s. emit s t (f m)) ms srv) = store srv"
  by (induction ms arbitrary: srv) simp_all

lemma fold_emit_sockets:
  "sockets (fold (\<lambda>m s. emit s t (f m)) ms srv) = sockets srv"
  by (induction ms arbitrary: srv) simp_all

lemma fold_emit_emitted:
  "emitted (fold (\<lambda>m s. emit s t (f m)) ms srv) = emitted srv @ map (\<lambda>m. (t, f m)) ms"
  by (induction ms arbitrary: srv) simp_all

lemma messages_setLastRead: "messages (setLastRead d cid u now) = messages d"
  by (simp add: setLastRead_def)

lemma mark_read_store:
  assumes "truthy_id userId = Some u"
  shows "store (snd (rest_mark_read srv io userId cid now)) =
     (setLastRead (store srv) cid u now)\<lparr>messages := markMessagesRead cid u (messages (store srv))\<rparr>"
  using assms
  by (simp add: rest_mark_read_def Let_def fold_emit_store messages_setLastRead
      markMessagesRead_def)

lemma mark_read_emitted:
  assumes "truthy_id userId = Some u"
  shows "emitted (snd (rest_mark_read srv io userId cid now)) =
     emitted srv @
       (if io then map (\<lambda>m. (ToRoom (room cid), MessageStatusUpdate (msg_id m) Read u))
                    (map (\<lambda>m. m\<lparr>msg_status := Read\<rparr>)
                       (filter (unread_from_others cid u) (messages (store srv))))
        else [])"
  using assms
  by (simp add: rest_mark_read_def Let_def fold_emit_emitted messages_setLastRead)

lemma mark_read_response:
  assumes "truthy_id userId = Some u"
  shows "fst (rest_mark_read srv io userId cid now) =
     (200, ReadBody ''Conversation marked as read''
             (length (filter (unread_from_others cid u) (messages (store srv)))))"
  using assms by (simp add: rest_mark_read_def Let_def messages_setLastRead)

lemma none_unread_after:
  "filter (unread_from_others cid u) (markMessagesRead cid u ms) = []"
  by (induction ms) (simp_all add: markMessagesRead_def unread_from_others_def)

lemma markMessagesRead_idem:
  "markMessagesRead cid u (markMessagesRead cid u ms) = markMessagesRead cid u ms"
  by (induction ms) (simp_all add: markMessagesRead_def unread_from_others_def)

lemma setLastRead_twice:
  "conversationParticipants (setLastRead (setLastRead d cid u t1) cid u t2) =
     conversationParticipants (setLastRead d cid u t2)"
proof -
  have "map (\<lambda>p. if part_conversationId p = cid \<and> part_userId p = u
                   then p\<lparr>part_lastReadAt := Some t2\<rparr> else p)
          (map (\<lambda>p. if part_conversationId p = cid \<and> part_userId p = u
                     then p\<lparr>part_lastReadAt := Some t1\<rparr> else p) ps) =
        map (\<lambda>p. if part_conversationId p = cid \<and> part_userId p = u
                   then p\<lparr>part_lastReadAt := Some t2\<rparr> else p) ps" for ps
    by (induction ps) simp_all
  then show ?thesis by (simp add: setLastRead_def)
qed

lemma setLastRead_sets:
  "\<forall>p \<in> set (conversationParticipants (setLastRead d cid u now)).
     part_conversationId p = cid \<and> part_userId p = u \<longrightarrow> part_lastReadAt p = Some now"
proof -
  have "\<forall>p \<in> set (map (\<lambda>p. if part_conversationId p = cid \<and> part_userId p = u
                             then p\<lparr>part_lastReadAt := Some now\<rparr> else p) ps).
     part_conversationId p = cid \<and> part_userId p = u \<longrightarrow> part_lastReadAt p = Some now" for ps
  proof (induction ps)
    case Nil
    show ?case by simp
  next
    case (Cons a ps)
    then show ?case by (simp del: set_map) blast
  qed
  then show ?thesis by (simp add: setLastRead_def del: set_map)
qed

text \<open>
  Claim C4, as the code has it. When an authenticated user marks a conversation as read
  twice in a row, the second call answers 200 with no updated message, emits nothing,
  leaves every message as the first call left it, and sets \<^verbatim>\<open>lastReadAt\<close> of the
  user's participant row to the time of the second call: the value of the first call is
  kept only when the clock reads the same at both calls.
\<close>

theorem mark_read_twice:
  fixes srv :: server and io :: bool and userId :: "ident option" and cid :: ident
    and t1 t2 :: time
  defines "s1 \<equiv> snd (rest_mark_read srv io userId cid t1)"
  defines "r2 \<equiv> rest_mark_read s1 io userId cid t2"
  assumes "truthy_id userId = Some u"
  shows "fst r2 = (200, ReadBody ''Conversation marked as read'' 0)
       \<and> emitted (snd r2) = emitted s1
       \<and> sockets (snd r2) = sockets s1
       \<and> messages (store (snd r2)) = messages (store s1)
       \<and> conversationParticipants (store (snd r2)) =
           conversationParticipants (setLastRead (store srv) cid u t2)
       \<and> (\<forall>p \<in> set (conversationParticipants (store (snd r2))).
             part_conversationId p = cid \<and> part_userId p = u \<longrightarrow> part_lastReadAt p = Some t2)
       \<and> (t2 = t1 \<longrightarrow> store (snd r2) = store s1)"
proof -
  note u = \<open>truthy_id userId = Some u\<close>
  have st1: "store s1 =
      (setLastRead (store srv) cid u t1)\<lparr>messages := markMessagesRead cid u (messages (store srv))\<rparr>"
    unfolding s1_def by (rule mark_read_store [OF u])
  have m1: "messages (store s1) = markMessagesRead cid u (messages (store srv))"
    unfolding st1 by simp
  have p1: "conversationParticipants (store s1) =
      conversationParticipants (setLastRead (store srv) cid u t1)"
    unfolding st1 by simp
  have none: "filter (unread_from_others cid u) (messages (store s1)) = []"
    unfolding m1 by (rule none_unread_after)
  have st2: "store (snd r2) =
      (setLastRead (store s1) cid u t2)\<lparr>messages := markMessagesRead cid u (messages (store s1))\<rparr>"
    unfolding r2_def by (rule mark_read_store [OF u])
  have a: "fst r2 = (200, ReadBody ''Conversation marked as read'' 0)"
    unfolding r2_def mark_read_response [OF u] none by simp
  have b: "emitted (snd r2) = emitted s1"
    unfolding r2_def mark_read_emitted [OF u] none by simp
  have c: "sockets (snd r2) = sockets s1"
    unfolding r2_def by (simp add: rest_mark_read_def u Let_def fold_emit_sockets)
  have d: "messages (store (snd r2)) = messages (store s1)"
    unfolding st2 by (simp add: m1 markMessagesRead_idem)
  have "conversationParticipants (store (snd r2)) =
      conversationParticipants (setLastRead (store s1) cid u t2)"
    unfolding st2 by simp
  also have "\<dots> = conversationParticipants (setLastRead (setLastRead (store srv) cid u t1) cid u t2)"
    by (simp add: setLastRead_def p1)
  also have "\<dots> = conversationParticipants (setLastRead (store srv) cid u t2)"
    by (rule setLastRead_twice)
  finally have e: "conversationParticipants (store (snd r2)) =
      conversationParticipants (setLastRead (store srv) cid u t2)" .
  have f: "\<forall>p \<in> set (conversationParticipants (store (snd r2))).
             part_conversationId p = cid \<and> part_userId p = u \<longrightarrow> part_lastReadAt p = Some t2"
    unfolding e by (rule setLastRead_sets)
  have g: "t2 = t1 \<longrightarrow> store (snd r2) = store s1"
  proof
    assume t: "t2 = t1"
    have "users (store (snd r2)) = users (store s1)"
      unfolding st2 by (simp add: setLastRead_def)
    moreover have "conversations (store (snd r2)) = conversations (store s1)"
      unfolding st2 by (simp add: setLastRead_def)
    moreover have "conversationParticipants (store (snd r2)) = conversationParticipants (store s1)"
      unfolding e p1 t ..
    moreover have "db.more (store (snd r2)) = db.more (store s1)"
      by simp
    ultimately show "store (snd r2) = store s1"
      using d by (intro db.equality)
  qed
  from a b c d e f g show ?thesis by (intro conjI)
qed

text \<open>
  At the installation after the message \<open>m2\<close> of \<open>u1\<close>: \<open>u2\<close> marks \<open>c1\<close> as read at
  time 10, which makes \<open>m2\<close> read and emits one update, and again at time 20.
\<close>

theorem mark_read_twice_witness:
  "map msg_status (messages (store read_once)) = [Read, Read]
   \<and> emitted read_once =
       emitted sent_server @
         [(ToRoom ''conversation:c1'', MessageStatusUpdate ''m2'' Read ''u2'')]
   \<and> fst (rest_mark_read read_once True (Some ''u2'') ''c1'' 20) =
       (200, ReadBody ''Conversation marked as read'' 0)
   \<and> emitted (snd (rest_mark_read read_once True (Some ''u2'') ''c1'' 20)) = emitted read_once
   \<and> messages (store (snd (rest_mark_read read_once True (Some ''u2'') ''c1'' 20))) =
       messages (store read_once)"
proof -
  have u: "truthy_id (Some ''u2'') = Some ''u2''"
    by (simp add: truthy_id_def)
  have 1: "map msg_status (messages (store read_once)) = [Read, Read]"
    unfolding read_once_def mark_read_store [OF u]
    by (simp add: sent_server_store markMessagesRead_def unread_from_others_def example_defs)
  have 2: "emitted read_once =
       emitted sent_server @
         [(ToRoom ''conversation:c1'', MessageStatusUpdate ''m2'' Read ''u2'')]"
    unfolding read_once_def mark_read_emitted [OF u]
    by (simp add: sent_server_store unread_from_others_def room_def example_defs)
  note t = mark_read_twice [OF u, of sent_server True "''c1''" 10 20, folded read_once_def]
  from t have 3: "fst (rest_mark_read read_once True (Some ''u2'') ''c1'' 20) =
       (200, ReadBody ''Conversation marked as read'' 0)"
    by (rule conjunct1)
  from t have 4: "emitted (snd (rest_mark_read read_once True (Some ''u2'') ''c1'' 20)) =
       emitted read_once"
    by (rule conjunct1 [OF conjunct2])
  from t have 5: "messages (store (snd (rest_mark_read read_once True (Some ''u2'') ''c1'' 20))) =
       messages (store read_once)"
    by (rule conjunct1 [OF conjunct2 [OF conjunct2 [OF conjunct2]]])
  from 1 2 3 4 5 show ?thesis by (intro conjI)
qed

text \<open>
  Claim C4 as stated fails on \<^verbatim>\<open>lastReadAt\<close>: after the call at time 10 the row of
  \<open>u2\<close> in \<open>c1\<close> has the value 10, and after the second call at time 20, with no
  message in between, it has the value 20.
\<close>

theorem mark_read_twice_counterexample:
  "map part_id (conversationParticipants (store read_once)) = [''p1'', ''p2'', ''p3'', ''p4'']
   \<and> map part_lastReadAt (conversationParticipants (store read_once)) =
       [None, Some 10, None, None]
   \<and> messages (store (snd (rest_mark_read read_once True (Some ''u2'') ''c1'' 20))) =
       messages (store read_once)
   \<and> map part_lastReadAt (conversationParticipants (store
         (snd (rest_mark_read read_once True (Some ''u2'') ''c1'' 20)))) =
       [None, Some 20, None, None]"
proof -
  have u: "truthy_id (Some ''u2'') = Some ''u2''"
    by (simp add: truthy_id_def)
  have s: "store read_once =
      (setLastRead (store sent_server) ''c1'' ''u2'' 10)\<lparr>messages :=
         markMessagesRead ''c1'' ''u2'' (messages (store sent_server))\<rparr>"
    unfolding read_once_def by (rule mark_read_store [OF u])
  have p: "conversationParticipants (store sent_server) =
      [mk_participant ''p1'' ''c1'' ''u1'', mk_participant ''p2'' ''c1'' ''u2'',
       mk_participant ''p3'' ''c2'' ''u2'', mk_participant ''p4'' ''c2'' ''u3'']"
    by (simp add: sent_server_store live_server_store example_db_def)
  have 1: "map part_id (conversationParticipants (store read_once)) =
      [''p1'', ''p2'', ''p3'', ''p4'']"
    unfolding s by (simp add: setLastRead_def p mk_participant_def)
  have 2: "map part_lastReadAt (conversationParticipants (store read_once)) =
       [None, Some 10, None, None]"
    unfolding s by (simp add: setLastRead_def p mk_participant_def)
  have s2: "store (snd (rest_mark_read read_once True (Some ''u2'') ''c1'' 20)) =
      (setLastRead (store read_once) ''c1'' ''u2'' 20)\<lparr>messages :=
         markMessagesRead ''c1'' ''u2'' (messages (store read_once))\<rparr>"
    by (rule mark_read_store [OF u])
  have 3: "messages (store (snd (rest_mark_read read_once True (Some ''u2'') ''c1'' 20))) =
       messages (store read_once)"
    unfolding s2 by (simp add: s markMessagesRead_idem)
  have 4: "map part_lastReadAt (conversationParticipants (store
         (snd (rest_mark_read read_once True (Some ''u2'') ''c1'' 20)))) =
       [None, Some 20, None, None]"
    unfolding s2 by (simp add: s setLastRead_def p mk_participant_def)
  from 1 2 3 4 show ?thesis by (intro conjI)
qed

section \<open>Creating a conversation\<close>









lemma insertParticipants_appends:
  assumes "insertParticipants d cid now gen strs = Some d2"
  shows "\<exists>rows. conversationParticipants d2 = conversationParticipants d @ rows"
proof (cases "those (map uuid_in strs)")
  case None
  with assms show ?thesis by (simp add: insertParticipants_def)
next
  case (Some ids)
  show ?thesis
  proof (cases "list_all (\<lambda>pId. pId \<in> set (map user_id (users d))) ids")
    case False
    with assms Some show ?thesis by (simp add: insertParticipants_def)
  next
    case True
    with assms Some have "d2 = d\<lparr>conversationParticipants :=
        conversationParticipants d @ map (participant_row gen cid now) (enumerate 0 ids)\<rparr>"
      by (simp add: insertParticipants_def)
    then show ?thesis by simp
  qed
qed













section \<open>Rooms and participant rows\<close>

lemma participant_rooms_iff:
  "r \<in> participant_rooms d u \<longleftrightarrow> (\<exists>cid. r = room cid \<and> findParticipant d cid u \<noteq> None)"
proof
  assume "r \<in> participant_rooms d u"
  then obtain p where p: "p \<in> set (conversationParticipants d)" "part_userId p = u"
      "r = room (part_conversationId p)"
    unfolding participant_rooms_def by auto
  then have "findParticipant d (part_conversationId p) u \<noteq> None"
    unfolding findParticipant_def find_None_iff by blast
  with p(3) show "\<exists>cid. r = room cid \<and> findParticipant d cid u \<noteq> None" by blast
next
  assume "\<exists>cid. r = room cid \<and> findParticipant d cid u \<noteq> None"
  then obtain cid where c: "r = room cid" "findParticipant d cid u \<noteq> None" by blast
  from c(2) obtain p where "p \<in> set (conversationParticipants d)"
      "part_conversationId p = cid" "part_userId p = u"
    unfolding findParticipant_def find_None_iff by blast
  with c(1) show "r \<in> participant_rooms d u"
    unfolding participant_rooms_def by force
qed

lemma participant_rooms_cong:
  "conversationParticipants d' = conversationParticipants d \<Longrightarrow>
   participant_rooms d' u = participant_rooms d u"
  by (simp add: participant_rooms_def)

lemma participant_rooms_append:
  "conversationParticipants d' = conversationParticipants d @ rows \<Longrightarrow>
   participant_rooms d u \<subseteq> participant_rooms d' u"
  by (simp add: participant_rooms_def del: set_filter set_map)

lemma rooms_of_updated_rows:
  assumes "\<And>p. part_userId (g p) = part_userId p"
    and "\<And>p. part_conversationId (g p) = part_conversationId p"
  shows "map (\<lambda>p. room (part_conversationId p)) (filter (\<lambda>p. part_userId p = v) (map g ps)) =
         map (\<lambda>p. room (part_conversationId p)) (filter (\<lambda>p. part_userId p = v) ps)"
  by (induction ps) (simp_all add: assms)

lemma participant_rooms_setLastRead:
  "participant_rooms (setLastRead d cid u now) v = participant_rooms d v"
proof -
  have "map (\<lambda>p. room (part_conversationId p))
          (filter (\<lambda>p. part_userId p = v)
             (map (\<lambda>p. if part_conversationId p = cid \<and> part_userId p = u
                        then p\<lparr>part_lastReadAt := Some now\<rparr> else p)
                (conversationParticipants d))) =
        map (\<lambda>p. room (part_conversationId p))
          (filter (\<lambda>p. part_userId p = v) (conversationParticipants d))"
    by (rule rooms_of_updated_rows) simp_all
  then show ?thesis by (simp add: participant_rooms_def setLastRead_def del: set_filter set_map)
qed

lemma socket_confirmed_mono:
  assumes "\<And>u. participant_rooms d u \<subseteq> participant_rooms d' u"
    and "socket_confirmed d s"
  shows "socket_confirmed d' s"
proof (cases "truthy_id (sock_userId s)")
  case None
  with assms(2) show ?thesis by (simp add: socket_confirmed_def)
next
  case (Some u)
  with assms(2) have "sock_rooms s \<subseteq> participant_rooms d u"
    by (simp add: socket_confirmed_def)
  from this assms(1) [of u] have "sock_rooms s \<subseteq> participant_rooms d' u"
    by (rule subset_trans)
  with Some show ?thesis by (simp add: socket_confirmed_def)
qed

lemma rooms_confirmed_store:
  assumes "rooms_confirmed srv"
    and "sockets srv' = sockets srv"
    and "\<And>u. participant_rooms (store srv) u \<subseteq> participant_rooms (store srv') u"
  shows "rooms_confirmed srv'"
proof -
  from assms(1) have a: "list_all (socket_confirmed (store srv)) (sockets srv)"
    and b: "distinct (map sock_id (sockets srv))"
    by (simp_all add: rooms_confirmed_def)
  from a have "list_all (socket_confirmed (store srv')) (sockets srv)"
    unfolding list_all_iff using socket_confirmed_mono [OF assms(3)] by blast
  with b show ?thesis by (simp add: rooms_confirmed_def assms(2))
qed

lemma rooms_confirmed_same_participants:
  assumes "rooms_confirmed srv"
    and "sockets srv' = sockets srv"
    and "conversationParticipants (store srv') = conversationParticipants (store srv)"
  shows "rooms_confirmed srv'"
  using assms(1,2)
proof (rule rooms_confirmed_store)
  fix u
  show "participant_rooms (store srv) u \<subseteq> participant_rooms (store srv') u"
    using participant_rooms_cong [OF assms(3), of u] by simp
qed


section \<open>Every handler keeps the rooms confirmed\<close>

lemma findSocket_None_fresh:
  "findSocket srv sid = None \<Longrightarrow> sid \<notin> set (map sock_id (sockets srv))"
  unfolding findSocket_def find_None_iff by auto

lemma findSocket_unique:
  assumes "findSocket srv sid = Some sock"
    and "distinct (map sock_id (sockets srv))"
    and "s \<in> set (sockets srv)"
    and "sock_id s = sid"
  shows "s = sock"
proof -
  from assms(1) have "sock \<in> set (sockets srv)" and "sock_id sock = sid"
    unfolding findSocket_def find_Some_iff by auto
  with assms(2,3,4) show ?thesis
    by (metis distinct_map inj_onD)
qed

lemma setPresence_participants:
  "conversationParticipants (setPresence d u b now) = conversationParticipants d"
  by (simp add: setPresence_def)

lemma rooms_confirmed_connection:
  assumes "rooms_confirmed srv"
  shows "rooms_confirmed (on_connection srv sid uid now)"
proof (cases "findSocket srv sid")
  case (Some sock)
  with assms show ?thesis by (simp add: on_connection_def)
next
  case None
  from assms have a: "list_all (socket_confirmed (store srv)) (sockets srv)"
    and b: "distinct (map sock_id (sockets srv))"
    by (simp_all add: rooms_confirmed_def)
  note fresh = findSocket_None_fresh [OF None]
  show ?thesis
  proof (cases "truthy_id uid")
    case n: None
    have eq: "on_connection srv sid uid now =
        srv\<lparr>sockets := sockets srv @ [\<lparr>sock_id = sid, sock_userId = uid, sock_rooms = {}\<rparr>]\<rparr>"
      using None n by (simp add: on_connection_def)
    have "socket_confirmed (store srv) \<lparr>sock_id = sid, sock_userId = uid, sock_rooms = {}\<rparr>"
      using n by (simp add: socket_confirmed_def)
    with a b fresh show ?thesis
      unfolding eq by (simp add: rooms_confirmed_def)
  next
    case (Some u)
    let ?d = "setPresence (store srv) u True now"
    let ?joined = "\<lparr>sock_id = sid, sock_userId = uid, sock_rooms = participant_rooms ?d u\<rparr>"
    have eq: "on_connection srv sid uid now =
        emit (srv\<lparr>store := ?d, sockets := sockets srv @ [?joined]\<rparr>) ToAll (UserOnline u)"
      unfolding on_connection_new [OF None Some] participant_rooms_def ..
    have same: "participant_rooms (store srv) v \<subseteq> participant_rooms ?d v" for v
      using participant_rooms_cong [OF setPresence_participants, of "store srv" u True now v]
      by simp
    from a have a': "list_all (socket_confirmed ?d) (sockets srv)"
      unfolding list_all_iff using socket_confirmed_mono [of "store srv" ?d, OF same] by blast
    have "socket_confirmed ?d ?joined"
      using Some by (simp add: socket_confirmed_def)
    with a' b fresh show ?thesis
      unfolding eq by (simp add: rooms_confirmed_def)
  qed
qed

lemma rooms_confirmed_disconnect:
  assumes "rooms_confirmed srv"
  shows "rooms_confirmed (on_disconnect srv sid now)"
proof (cases "findSocket srv sid")
  case None
  with assms show ?thesis by (simp add: on_disconnect_def)
next
  case (Some sock)
  from assms have a: "list_all (socket_confirmed (store srv)) (sockets srv)"
    and b: "distinct (map sock_id (sockets srv))"
    by (simp_all add: rooms_confirmed_def)
  let ?rest = "filter (\<lambda>s. sock_id s \<noteq> sid) (sockets srv)"
  from a have a': "list_all (socket_confirmed (store srv)) ?rest"
    unfolding list_all_iff by simp
  from b have b': "distinct (map sock_id ?rest)"
    by (rule distinct_map_filter)
  have r: "rooms_confirmed (srv\<lparr>sockets := ?rest\<rparr>)"
    using a' b' by (simp add: rooms_confirmed_def)
  show ?thesis
  proof (cases "truthy_id (sock_userId sock)")
    case None
    with Some r show ?thesis by (simp add: on_disconnect_def)
  next
    case u: (Some u)
    have eq: "on_disconnect srv sid now =
        emit (srv\<lparr>sockets := ?rest, store := setPresence (store srv) u False now\<rparr>)
             ToAll (UserOffline u)"
      by (rule on_disconnect_found [OF Some u])
    show ?thesis
      unfolding eq
      by (rule rooms_confirmed_same_participants [OF r]) (simp_all add: setPresence_participants)
  qed
qed


lemma list_all_mapI:
  "(\<And>x. x \<in> set xs \<Longrightarrow> P (f x)) \<Longrightarrow> list_all P (map f xs)"
  by (induction xs) simp_all

lemma map_same_key:
  "(\<And>x. g (f x) = g x) \<Longrightarrow> map g (map f xs) = map g xs"
  by (induction xs) simp_all

lemma rooms_confirmed_join:
  assumes "rooms_confirmed srv"
  shows "rooms_confirmed (on_conversation_join srv sid cid)"
proof (cases "findSocket srv sid")
  case None
  with assms show ?thesis by (simp add: on_conversation_join_def)
next
  case (Some sock)
  show ?thesis
  proof (cases "truthy_id (sock_userId sock)")
    case None
    with Some assms show ?thesis by (simp add: on_conversation_join_def)
  next
    case u: (Some u)
    show ?thesis
    proof (cases "findParticipant (store srv) cid u")
      case None
      with Some u assms show ?thesis by (simp add: on_conversation_join_def)
    next
      case p: (Some p)
      from assms have a: "list_all (socket_confirmed (store srv)) (sockets srv)"
        and b: "distinct (map sock_id (sockets srv))"
        by (simp_all add: rooms_confirmed_def)
      let ?f = "\<lambda>s. if sock_id s = sid
                     then s\<lparr>sock_rooms := insert (room cid) (sock_rooms s)\<rparr> else s"
      have eq: "on_conversation_join srv sid cid =
          emit (srv\<lparr>sockets := map ?f (sockets srv)\<rparr>) (ToSocket sid) (ConversationJoined cid)"
        using Some u p by (simp add: on_conversation_join_def socket_join_def)
      have r: "room cid \<in> participant_rooms (store srv) u"
        unfolding participant_rooms_iff using p by auto
      have "socket_confirmed (store srv) (?f s)" if s: "s \<in> set (sockets srv)" for s
      proof (cases "sock_id s = sid")
        case False
        with a s show ?thesis unfolding list_all_iff by simp
      next
        case True
        from findSocket_unique [OF Some b s True] have "s = sock" .
        with u have tu: "truthy_id (sock_userId s) = Some u" by simp
        from a s have "socket_confirmed (store srv) s" unfolding list_all_iff by blast
        with tu have "sock_rooms s \<subseteq> participant_rooms (store srv) u"
          by (simp add: socket_confirmed_def)
        with r tu True show ?thesis by (simp add: socket_confirmed_def)
      qed
      then have a': "list_all (socket_confirmed (store srv)) (map ?f (sockets srv))"
        by (rule list_all_mapI)
      have ids: "map sock_id (map ?f (sockets srv)) = map sock_id (sockets srv)"
        by (rule map_same_key) simp
      have b': "distinct (map sock_id (map ?f (sockets srv)))"
        unfolding ids by (rule b)
      from a' b' show ?thesis
        unfolding eq by (simp add: rooms_confirmed_def del: map_map)
    qed
  qed
qed

lemma rooms_confirmed_leave:
  assumes "rooms_confirmed srv"
  shows "rooms_confirmed (on_conversation_leave srv sid cid)"
proof (cases "findSocket srv sid")
  case None
  with assms show ?thesis by (simp add: on_conversation_leave_def)
next
  case (Some sock)
  from assms have a: "list_all (socket_confirmed (store srv)) (sockets srv)"
    and b: "distinct (map sock_id (sockets srv))"
    by (simp_all add: rooms_confirmed_def)
  let ?f = "\<lambda>s. if sock_id s = sid then s\<lparr>sock_rooms := sock_rooms s - {room cid}\<rparr> else s"
  have eq: "on_conversation_leave srv sid cid =
      emit (srv\<lparr>sockets := map ?f (sockets srv)\<rparr>) (ToSocket sid) (ConversationLeft cid)"
    using Some by (simp add: on_conversation_leave_def socket_leave_def)
  have "socket_confirmed (store srv) (?f s)" if s: "s \<in> set (sockets srv)" for s
  proof -
    from a s have "socket_confirmed (store srv) s" unfolding list_all_iff by simp
    then show ?thesis
      by (cases "truthy_id (sock_userId s)") (auto simp add: socket_confirmed_def)
  qed
  then have a': "list_all (socket_confirmed (store srv)) (map ?f (sockets srv))"
    by (rule list_all_mapI)
  have ids: "map sock_id (map ?f (sockets srv)) = map sock_id (sockets srv)"
    by (rule map_same_key) simp
  have b': "distinct (map sock_id (map ?f (sockets srv)))"
    unfolding ids by (rule b)
  from a' b' show ?thesis
    unfolding eq by (simp add: rooms_confirmed_def del: map_map)
qed


lemma on_message_send_sockets:
  "sockets (on_message_send srv sid cid content new_id now) = sockets srv"
  by (simp add: on_message_send_def insertMessage_def Let_def
      split: option.splits if_splits prod.splits)

lemma on_message_send_participants:
  "conversationParticipants (store (on_message_send srv sid cid content new_id now)) =
     conversationParticipants (store srv)"
  by (simp add: on_message_send_def insertMessage_def Let_def
      split: option.splits if_splits prod.splits)

lemma on_typing_sockets: "sockets (on_typing srv sid cid b) = sockets srv"
  by (simp add: on_typing_def split: option.splits)

lemma on_typing_store: "store (on_typing srv sid cid b) = store srv"
  by (simp add: on_typing_def split: option.splits)

lemma on_message_status_sockets: "sockets (on_message_status srv sid mid st) = sockets srv"
  by (simp add: on_message_status_def Let_def split: option.splits)

lemma on_message_status_participants:
  "conversationParticipants (store (on_message_status srv sid mid st)) =
     conversationParticipants (store srv)"
  by (simp add: on_message_status_def setMessageStatus_def Let_def split: option.splits)

lemma rest_create_conversation_sockets:
  "sockets (snd (rest_create_conversation srv userId pids name isGroup new_id gen now)) =
     sockets srv"
  by (simp add: rest_create_conversation_def Let_def split: option.splits)

lemma rest_create_conversation_participants:
  "\<exists>rows. conversationParticipants
            (store (snd (rest_create_conversation srv userId pids name isGroup new_id gen now))) =
          conversationParticipants (store srv) @ rows"
proof -
  have "\<exists>rows. conversationParticipants d2 = conversationParticipants (store srv) @ rows"
    if "insertParticipants ((store srv)\<lparr>conversations := cs\<rparr>) cid now gen strs = Some d2"
    for cs cid strs d2
    using insertParticipants_appends [OF that] by simp
  then show ?thesis
    by (simp add: rest_create_conversation_def Let_def split: option.splits)
qed

lemma rest_send_message_sockets:
  "sockets (snd (rest_send_message srv io userId cid content new_id now)) = sockets srv"
  by (simp add: rest_send_message_def insertMessage_def Let_def
      split: option.splits if_splits prod.splits)

lemma rest_send_message_participants:
  "conversationParticipants (store (snd (rest_send_message srv io userId cid content new_id now))) =
     conversationParticipants (store srv)"
  by (simp add: rest_send_message_def insertMessage_def touchConversation_def Let_def
      split: option.splits if_splits prod.splits)

lemma rest_edit_message_sockets:
  "sockets (snd (rest_edit_message srv userId mid content now)) = sockets srv"
  by (simp add: rest_edit_message_def Let_def split: option.splits)

lemma rest_edit_message_participants:
  "conversationParticipants (store (snd (rest_edit_message srv userId mid content now))) =
     conversationParticipants (store srv)"
  by (simp add: rest_edit_message_def Let_def split: option.splits)

lemma rest_delete_message_sockets:
  "sockets (snd (rest_delete_message srv userId mid)) = sockets srv"
  by (simp add: rest_delete_message_def Let_def split: option.splits)

lemma rest_delete_message_participants:
  "conversationParticipants (store (snd (rest_delete_message srv userId mid))) =
     conversationParticipants (store srv)"
  by (simp add: rest_delete_message_def Let_def split: option.splits)

lemma rest_mark_read_sockets:
  "sockets (snd (rest_mark_read srv io userId cid now)) = sockets srv"
  by (simp add: rest_mark_read_def Let_def fold_emit_sockets split: option.splits)

lemma rest_mark_read_rooms:
  "participant_rooms (store (snd (rest_mark_read srv io userId cid now))) v =
     participant_rooms (store srv) v"
proof (cases "truthy_id userId")
  case None
  then show ?thesis by (simp add: rest_mark_read_def)
next
  case (Some u)
  have "conversationParticipants (store (snd (rest_mark_read srv io userId cid now))) =
      conversationParticipants (setLastRead (store srv) cid u now)"
    unfolding mark_read_store [OF Some] by simp
  from participant_rooms_cong [OF this] show ?thesis
    by (simp add: participant_rooms_setLastRead)
qed

lemma rooms_confirmed_step:
  assumes "rooms_confirmed srv"
  shows "rooms_confirmed (step srv op)"
proof (cases op)
  case (Connect sid uid now)
  with assms show ?thesis by (simp add: rooms_confirmed_connection)
next
  case (Disconnect sid now)
  with assms show ?thesis by (simp add: rooms_confirmed_disconnect)
next
  case (Join sid cid)
  with assms show ?thesis by (simp add: rooms_confirmed_join)
next
  case (Leave sid cid)
  with assms show ?thesis by (simp add: rooms_confirmed_leave)
next
  case (Send sid cid content new_id now)
  show ?thesis
    unfolding Send step.simps
    by (rule rooms_confirmed_same_participants [OF assms])
      (rule on_message_send_sockets on_message_send_participants)+
next
  case (TypingStart sid cid)
  show ?thesis
    unfolding TypingStart step.simps on_typing_start_def
    by (rule rooms_confirmed_same_participants [OF assms])
      (simp_all add: on_typing_sockets on_typing_store)
next
  case (TypingStop sid cid)
  show ?thesis
    unfolding TypingStop step.simps on_typing_stop_def
    by (rule rooms_confirmed_same_participants [OF assms])
      (simp_all add: on_typing_sockets on_typing_store)
next
  case (Status sid mid st)
  show ?thesis
    unfolding Status step.simps
    by (rule rooms_confirmed_same_participants [OF assms])
      (rule on_message_status_sockets on_message_status_participants)+
next
  case (CreateConversation userId pids name isGroup new_id gen now)
  obtain rows where rows: "conversationParticipants
            (store (snd (rest_create_conversation srv userId pids name isGroup new_id gen now))) =
          conversationParticipants (store srv) @ rows"
    using rest_create_conversation_participants by blast
  show ?thesis
    unfolding CreateConversation step.simps
    using assms rest_create_conversation_sockets
  proof (rule rooms_confirmed_store)
    fix u
    show "participant_rooms (store srv) u \<subseteq> participant_rooms
       (store (snd (rest_create_conversation srv userId pids name isGroup new_id gen now))) u"
      by (rule participant_rooms_append [OF rows])
  qed
next
  case (RestSend io userId cid content new_id now)
  show ?thesis
    unfolding RestSend step.simps
    by (rule rooms_confirmed_same_participants [OF assms])
      (rule rest_send_message_sockets rest_send_message_participants)+
next
  case (Edit userId mid content now)
  show ?thesis
    unfolding Edit step.simps
    by (rule rooms_confirmed_same_participants [OF assms])
      (rule rest_edit_message_sockets rest_edit_message_participants)+
next
  case (Delete userId mid)
  show ?thesis
    unfolding Delete step.simps
    by (rule rooms_confirmed_same_participants [OF assms])
      (rule rest_delete_message_sockets rest_delete_message_participants)+
next
  case (MarkRead io userId cid now)
  show ?thesis
    unfolding MarkRead step.simps
    using assms rest_mark_read_sockets
  proof (rule rooms_confirmed_store)
    fix u
    show "participant_rooms (store srv) u \<subseteq>
        participant_rooms (store (snd (rest_mark_read srv io userId cid now))) u"
      by (simp add: rest_mark_read_rooms)
  qed
qed

lemma rooms_confirmed_run:
  "rooms_confirmed srv \<Longrightarrow> rooms_confirmed (run srv ops)"
  unfolding run_def
  by (induction ops arbitrary: srv) (simp_all add: rooms_confirmed_step)

lemma rooms_confirmed_startup: "rooms_confirmed (startup d)"
  by (simp add: rooms_confirmed_def startup_def)

text \<open>
  Claim C5. After every sequence of operations from start-up, whatever the database was
  and whichever connections, joins, leaves and other requests the sequence holds, every
  room recorded for a connected socket is the room of a conversation in which the
  socket's user has a participant row in the store.
\<close>

theorem rooms_only_for_participants:
  assumes "s \<in> set (sockets (run (startup d) ops))"
    and "r \<in> sock_rooms s"
  shows "\<exists>u cid. sock_userId s = Some u \<and> r = room cid \<and>
           findParticipant (store (run (startup d) ops)) cid u \<noteq> None"
proof -
  have "rooms_confirmed (run (startup d) ops)"
    by (rule rooms_confirmed_run [OF rooms_confirmed_startup])
  with assms(1) have c: "socket_confirmed (store (run (startup d) ops)) s"
    unfolding rooms_confirmed_def list_all_iff by blast
  show ?thesis
  proof (cases "truthy_id (sock_userId s)")
    case None
    with c assms(2) show ?thesis by (simp add: socket_confirmed_def)
  next
    case (Some u)
    with c assms(2) have "r \<in> participant_rooms (store (run (startup d) ops)) u"
      by (auto simp add: socket_confirmed_def)
    then obtain cid where "r = room cid"
      "findParticipant (store (run (startup d) ops)) cid u \<noteq> None"
      unfolding participant_rooms_iff by blast
    moreover from Some have "sock_userId s = Some u"
      by (simp add: truthy_id_def split: option.splits if_splits)
    ultimately show ?thesis by blast
  qed
qed

text \<open>
  At the installation: \<open>u1\<close> connects as \<open>A\<close>, asks to join \<open>c2\<close>, where it has no
  participant row, leaves \<open>c1\<close> and joins it again; \<open>A\<close> ends in the room of \<open>c1\<close> alone.
\<close>

theorem rooms_only_for_participants_witness:
  "sockets (run (startup example_db)
      [Connect ''A'' (Some ''u1'') 5, Join ''A'' ''c2'', Leave ''A'' ''c1'', Join ''A'' ''c1'']) =
     [\<lparr>sock_id = ''A'', sock_userId = Some ''u1'', sock_rooms = {''conversation:c1''}\<rparr>]
   \<and> (\<exists>u cid. Some ''u1'' = Some u \<and> ''conversation:c1'' = room cid \<and>
          findParticipant (store (run (startup example_db)
            [Connect ''A'' (Some ''u1'') 5, Join ''A'' ''c2'', Leave ''A'' ''c1'',
             Join ''A'' ''c1''])) cid u \<noteq> None)"
proof -
  have s: "sockets (run (startup example_db)
      [Connect ''A'' (Some ''u1'') 5, Join ''A'' ''c2'', Leave ''A'' ''c1'', Join ''A'' ''c1'']) =
     [\<lparr>sock_id = ''A'', sock_userId = Some ''u1'', sock_rooms = {''conversation:c1''}\<rparr>]"
    by (simp add: handler_defs example_defs del: set_filter)
  have m: "\<lparr>sock_id = ''A'', sock_userId = Some ''u1'', sock_rooms = {''conversation:c1''}\<rparr>
      \<in> set (sockets (run (startup example_db)
      [Connect ''A'' (Some ''u1'') 5, Join ''A'' ''c2'', Leave ''A'' ''c1'', Join ''A'' ''c1'']))"
    unfolding s by simp
  have r: "''conversation:c1'' \<in> sock_rooms
      \<lparr>sock_id = ''A'', sock_userId = Some ''u1'', sock_rooms = {''conversation:c1''}\<rparr>"
    by simp
  from rooms_only_for_participants [OF m r] s show ?thesis by simp
qed

end
